theory Spec2Isabelle
  imports Main
begin

section \<open>JavaScript values\<close>

text \<open>
  The worker handles values that come out of \<open>JSON.parse\<close>: the update delivered to the
  webhook and the bodies of the Bot API's responses. They are modelled as one datatype.
  \<open>JUndef\<close> is what reading an absent property yields. Numbers are the integer-valued
  doubles (the ids, error codes and timestamps the code looks at are integers): \<open>JNum n\<close>
  stands for a parsed number, so \<open>n\<close> is a double. Strings are byte strings (UTF-8). An
  object is the list of its members, under distinct names; after \<open>JSON.parse\<close> no member is
  callable.
\<close>

datatype jsval =
    JUndef
  | JNull
  | JBool bool
  | JNum int
  | JStr string
  | JArr "jsval list"
  | JObj "(string \<times> jsval) list"

text \<open>What the code can raise.\<close>

datatype js_error = TypeError | AbortError | NetworkFailure | HttpError | SyntaxError

text \<open>ToBoolean: what \<open>if (v)\<close>, \<open>!v\<close>, \<open>a && b\<close> and \<open>a || b\<close> test.\<close>

fun truthy :: "jsval \<Rightarrow> bool" where
  "truthy JUndef = False"
| "truthy JNull = False"
| "truthy (JBool b) = b"
| "truthy (JNum n) = (n \<noteq> 0)"
| "truthy (JStr s) = (s \<noteq> [])"
| "truthy (JArr xs) = True"
| "truthy (JObj kvs) = True"

fun nullish :: "jsval \<Rightarrow> bool" where
  "nullish JUndef = True"
| "nullish JNull = True"
| "nullish v = False"

text \<open>
  \<open>jsprop v k\<close> is \<open>v.k\<close> for a receiver that is neither null nor undefined: the member of an
  object, and \<open>undefined\<close> on a primitive or an array (none of the property names the worker
  reads is a built-in one). Reading a property of null or undefined raises a TypeError:
  wherever the source reads a property of a value it has not tested, the model tests
  \<open>nullish\<close> first and raises. With optional chaining (\<open>v?.k\<close>) the read of a null or
  undefined receiver is \<open>undefined\<close>, which is what \<open>jsprop\<close> gives there.
\<close>

fun jsprop :: "jsval \<Rightarrow> string \<Rightarrow> jsval" where
  "jsprop (JObj kvs) k = (case map_of kvs k of Some v \<Rightarrow> v | None \<Rightarrow> JUndef)"
| "jsprop v k = JUndef"

text \<open>
  \<open>a === b\<close>. Primitives are compared by type and value. An object or an array is only
  equal to itself; the two sides of every comparison in the worker come from different
  parses (or one side is a literal), so they are never the same object.
\<close>

fun strict_eq :: "jsval \<Rightarrow> jsval \<Rightarrow> bool" where
  "strict_eq (JArr xs) b = False"
| "strict_eq (JObj kvs) b = False"
| "strict_eq a b = (a = b)"

text \<open>\<open>typeof v\<close>.\<close>

fun typeof :: "jsval \<Rightarrow> string" where
  "typeof JUndef = ''undefined''"
| "typeof JNull = ''object''"
| "typeof (JBool b) = ''boolean''"
| "typeof (JNum n) = ''number''"
| "typeof (JStr s) = ''string''"
| "typeof (JArr xs) = ''object''"
| "typeof (JObj kvs) = ''object''"

definition js_or :: "jsval \<Rightarrow> jsval \<Rightarrow> jsval" where
  "js_or a b = (if truthy a then a else b)"

definition js_and :: "jsval \<Rightarrow> jsval \<Rightarrow> jsval" where
  "js_and a b = (if truthy a then b else a)"

subsection \<open>Numbers as strings\<close>

text \<open>
  \<open>Number::toString\<close> prints the shortest decimal digits that identify the double: the
  least number \<open>k\<close> of digits for which some \<open>s\<close> of \<open>k\<close> digits and some exponent give a
  value \<open>s * 10 ^ e\<close> that rounds to the double; of two such values the one nearer to the
  double, and the one with \<open>s\<close> even when they are equally near. Up to 21 digits before the
  decimal point the value is printed in full (the digits of \<open>s\<close> followed by zeros), beyond
  that in exponent form. For an integer below \<open>2 ^ 53\<close> this is its decimal numeral.

  \<open>nearest_double x\<close> is the double an integer \<open>x\<close> rounds to (round to nearest, ties to
  even): from \<open>2 ^ 53\<close> on, the doubles are the multiples of \<open>2 ^ e\<close> for the \<open>e\<close> that
  leaves 53 bits. (The doubles end below \<open>2 ^ 1024\<close>; a larger number in a JSON text is
  parsed as infinity, which is not an integer.)
\<close>

definition digit_char :: "nat \<Rightarrow> char" where
  "digit_char d = ''0123456789'' ! d"

fun show_nat :: "nat \<Rightarrow> string" where
  "show_nat n = (if n < 10 then [digit_char n] else show_nat (n div 10) @ [digit_char (n mod 10)])"

fun bit_length :: "nat \<Rightarrow> nat" where
  "bit_length n = (if n = 0 then 0 else Suc (bit_length (n div 2)))"

definition nearest_double :: "nat \<Rightarrow> nat" where
  "nearest_double x =
     (if x < 2 ^ 53 then x
      else
        let e = bit_length x - 53;
            q = x div 2 ^ e;
            r = x mod 2 ^ e;
            half = 2 ^ (e - 1)
        in if r < half then q * 2 ^ e
           else if half < r then (q + 1) * 2 ^ e
           else (if even q then q else q + 1) * 2 ^ e)"

fun digit_count :: "nat \<Rightarrow> nat" where
  "digit_count n = (if n < 10 then 1 else Suc (digit_count (n div 10)))"

text \<open>
  \<open>shortest x k d\<close>, for a double \<open>x\<close> of \<open>d\<close> decimal digits: the value the printed digits
  denote, when no value of fewer than \<open>k\<close> significant digits rounds to \<open>x\<close>. The two
  candidates of \<open>k\<close> digits are the multiples of \<open>10 ^ (d - k)\<close> next to \<open>x\<close>.
\<close>

function shortest :: "nat \<Rightarrow> nat \<Rightarrow> nat \<Rightarrow> nat" where
  "shortest x k d =
     (if d \<le> k then x
      else
        let p = 10 ^ (d - k);
            lo = (x div p) * p;
            hi = lo + p
        in if nearest_double lo = x \<and> nearest_double hi = x
           then (if x - lo < hi - x then lo
                 else if hi - x < x - lo then hi
                 else if even (x div p) then lo else hi)
           else if nearest_double lo = x then lo
           else if nearest_double hi = x then hi
           else shortest x (k + 1) d)"
  by pat_completeness auto
termination
  by (relation "measure (\<lambda>(x, k, d). d - k)") auto

function strip_zeros :: "nat \<Rightarrow> nat" where
  "strip_zeros n = (if n = 0 \<or> n mod 10 \<noteq> 0 then n else strip_zeros (n div 10))"
  by pat_completeness auto
termination
  by (relation "measure (\<lambda>n. n)") auto

definition show_double :: "nat \<Rightarrow> string" where
  "show_double x =
     (let v = shortest x 1 (digit_count x);
          n = digit_count v
      in if n \<le> 21 then show_nat v
         else (case show_nat (strip_zeros v) of
                 [] \<Rightarrow> []
               | c # cs \<Rightarrow> if cs = [] then [c] else c # CHR ''.'' # cs)
              @ ''e+'' @ show_nat (n - 1))"

definition show_number :: "int \<Rightarrow> string" where
  "show_number i = (if i < 0 then CHR ''-'' # show_double (nat (- i)) else show_double (nat i))"

subsection \<open>ToString, as template literals apply it\<close>

text \<open>
  A template literal converts each value it interpolates with ToString. For an object
  that is OrdinaryToPrimitive with hint string: the \<open>toString\<close> member is called if it is
  callable, then \<open>valueOf\<close>, and a TypeError is raised when neither gives a primitive. An
  object without a \<open>toString\<close> member of its own inherits \<open>Object.prototype.toString\<close> and
  prints as \<open>[object Object]\<close>. An object that has one of its own cannot be converted: the
  member is not callable, and \<open>valueOf\<close> (its own, not callable, or the inherited one, which
  returns the object itself) gives no primitive. An array is converted by \<open>join\<close>: its
  elements are converted in turn, null and undefined to the empty string, so an array
  holding an object that cannot be converted cannot be converted either.
\<close>

fun join_comma :: "string list \<Rightarrow> string" where
  "join_comma [] = []"
| "join_comma [x] = x"
| "join_comma (x # y # ys) = x @ '','' @ join_comma (y # ys)"

fun js_to_string :: "jsval \<Rightarrow> js_error + string" where
  "js_to_string JUndef = Inr ''undefined''"
| "js_to_string JNull = Inr ''null''"
| "js_to_string (JBool b) = Inr (if b then ''true'' else ''false'')"
| "js_to_string (JNum n) = Inr (show_number n)"
| "js_to_string (JStr s) = Inr s"
| "js_to_string (JArr xs) =
     (let parts = map (\<lambda>x. if nullish x then Inr [] else js_to_string x) xs
      in if list_ex isl parts then Inl TypeError else Inr (join_comma (map projr parts)))"
| "js_to_string (JObj kvs) =
     (if map_of kvs ''toString'' = None then Inr ''[object Object]'' else Inl TypeError)"

text \<open>
  A log line does nothing but interpolate values into a template literal and hand the
  string to the console. Console output is not modelled; what is modelled is that the
  line raises a TypeError when one of the values cannot be converted. \<open>interpolates vs\<close>:
  a template literal that interpolates the values \<open>vs\<close> evaluates to a string.
\<close>

definition printable :: "jsval \<Rightarrow> bool" where
  "printable v = (\<not> isl (js_to_string v))"

definition interpolates :: "jsval list \<Rightarrow> bool" where
  "interpolates vs = list_all printable vs"

subsection \<open>String methods\<close>

text \<open>\<open>s.startsWith(p)\<close> and \<open>s.includes(p)\<close>.\<close>

definition startsWith :: "string \<Rightarrow> string \<Rightarrow> bool" where
  "startsWith s p = (take (length p) s = p)"

fun str_includes :: "string \<Rightarrow> string \<Rightarrow> bool" where
  "str_includes [] p = (p = [])"
| "str_includes (c # cs) p = (startsWith (c # cs) p \<or> str_includes cs p)"

text \<open>
  \<open>s.trim()\<close> removes white space and line terminators from both ends. On byte strings
  these are the UTF-8 encodings of the code points ECMAScript lists: U+0009 to U+000D,
  U+0020, U+00A0, U+1680, U+2000 to U+200A, U+2028, U+2029, U+202F, U+205F, U+3000, U+FEFF.
\<close>

definition white_space :: "string list" where
  "white_space =
     [[CHR 0x09], [CHR 0x0A], [CHR 0x0B], [CHR 0x0C], [CHR 0x0D], [CHR 0x20],
      [CHR 0xC2, CHR 0xA0], [CHR 0xE1, CHR 0x9A, CHR 0x80],
      [CHR 0xE2, CHR 0x80, CHR 0x80], [CHR 0xE2, CHR 0x80, CHR 0x81], [CHR 0xE2, CHR 0x80, CHR 0x82],
      [CHR 0xE2, CHR 0x80, CHR 0x83], [CHR 0xE2, CHR 0x80, CHR 0x84], [CHR 0xE2, CHR 0x80, CHR 0x85],
      [CHR 0xE2, CHR 0x80, CHR 0x86], [CHR 0xE2, CHR 0x80, CHR 0x87], [CHR 0xE2, CHR 0x80, CHR 0x88],
      [CHR 0xE2, CHR 0x80, CHR 0x89], [CHR 0xE2, CHR 0x80, CHR 0x8A],
      [CHR 0xE2, CHR 0x80, CHR 0xA8], [CHR 0xE2, CHR 0x80, CHR 0xA9], [CHR 0xE2, CHR 0x80, CHR 0xAF],
      [CHR 0xE2, CHR 0x81, CHR 0x9F], [CHR 0xE3, CHR 0x80, CHR 0x80], [CHR 0xEF, CHR 0xBB, CHR 0xBF]]"

fun strip_one :: "string list \<Rightarrow> string \<Rightarrow> string option" where
  "strip_one [] s = None"
| "strip_one (w # ws) s = (if startsWith s w then Some (drop (length w) s) else strip_one ws s)"

function trim_left :: "string list \<Rightarrow> string \<Rightarrow> string" where
  "trim_left ws s =
     (case strip_one (filter (\<lambda>w. w \<noteq> []) ws) s of
        None \<Rightarrow> s
      | Some s' \<Rightarrow> if length s' < length s then trim_left ws s' else s)"
  by pat_completeness auto
termination
  by (relation "measure (\<lambda>(ws, s). length s)") auto

definition trim :: "string \<Rightarrow> string" where
  "trim s = rev (trim_left (map rev white_space) (rev (trim_left white_space s)))"

section \<open>Configuration\<close>

text \<open>
  The module's \<open>CONFIG\<close> object. The functions below take the configuration as a
  parameter, so that what is proved of them holds of every window, limit, TTL, retry
  ceiling and delay; \<open>CONFIG\<close> is the one the worker runs with.
\<close>

record config =
  TELEGRAM_API_URL :: string
  WARNING_MESSAGE_TEXT :: string
  WARNING_AUTO_DELETE_DELAY :: nat
  REQUEST_TIMEOUT :: nat
  MAX_RETRIES :: nat
  CACHE_TTL :: int
  RATE_LIMIT_WINDOW :: int
  MAX_REQUESTS_PER_WINDOW :: nat

definition CONFIG :: config where
  "CONFIG =
     \<lparr>TELEGRAM_API_URL = ''https://api.telegram.org/bot'',
      WARNING_MESSAGE_TEXT =
        [CHR 0xE2, CHR 0x9A, CHR 0xA0, CHR 0xEF, CHR 0xB8, CHR 0x8F] @ '' '' @
        [CHR 0xE6, CHR 0x9C, CHR 0xAC, CHR 0xE7, CHR 0xBE, CHR 0xA4, CHR 0xE7, CHR 0xA6, CHR 0x81,
          CHR 0xE6, CHR 0xAD, CHR 0xA2, CHR 0xE8, CHR 0xB7, CHR 0xA8, CHR 0xE9, CHR 0xA2, CHR 0x91,
          CHR 0xE9, CHR 0x81, CHR 0x93, CHR 0xE5, CHR 0x9B, CHR 0x9E, CHR 0xE5, CHR 0xA4, CHR 0x8D,
          CHR 0xE5, CHR 0x86, CHR 0x85, CHR 0xE5, CHR 0xAE, CHR 0xB9],
      WARNING_AUTO_DELETE_DELAY = 10000,
      REQUEST_TIMEOUT = 30000,
      MAX_RETRIES = 3,
      CACHE_TTL = 300000,
      RATE_LIMIT_WINDOW = 60000,
      MAX_REQUESTS_PER_WINDOW = 30\<rparr>"

section \<open>The world the worker runs in\<close>

text \<open>
  The two module-level maps, the clock \<open>Date.now()\<close> reads, and the effects the worker has
  on the outside, in the order they happen: every \<open>fetch\<close> of the Bot API (with the
  method, the parameters and the retry count of the \<open>makeApiRequest\<close> call that issues
  it), every awaited \<open>setTimeout\<close> delay, and every task handed to \<open>ctx.waitUntil\<close>.

  The one task the worker hands over is a call of \<open>scheduleMessageDeletion\<close>, recorded with
  its arguments (the chat, the message and the delay); \<open>run_task\<close> below is what the task
  does when the runtime runs it, after the response has been returned.
\<close>

datatype task = ScheduleMessageDeletion jsval jsval nat

datatype effect =
    Fetch string jsval nat
  | Sleep nat
  | WaitUntil task

record world =
  now :: int
  fetches :: nat
  trace :: "effect list"
  chatInfoCache :: "string \<rightharpoonup> (jsval \<times> int)"
  rateLimitTracker :: "string \<rightharpoonup> int list"

text \<open>
  What one \<open>fetch\<close> of the Bot API comes to: the promise rejects (network failure), the
  abort controller fires after \<open>REQUEST_TIMEOUT\<close>, or a response arrives, with its \<open>ok\<close>
  flag (an HTTP status from 200 to 299) and the result of \<open>response.json()\<close> (\<open>None\<close> when
  the body does not parse). The remote side is an oracle: the time the n-th fetch takes
  and its outcome.
\<close>

datatype fetch_outcome =
    FetchRejected
  | FetchAborted
  | Responded bool "jsval option"

type_synonym remote = "nat \<Rightarrow> nat \<times> fetch_outcome"

definition do_fetch :: "remote \<Rightarrow> string \<Rightarrow> jsval \<Rightarrow> nat \<Rightarrow> world \<Rightarrow> fetch_outcome \<times> world" where
  "do_fetch remote method params retryCount s =
     (snd (remote (fetches s)),
      s\<lparr>now := now s + int (fst (remote (fetches s))),
        fetches := Suc (fetches s),
        trace := trace s @ [Fetch method params retryCount]\<rparr>)"

definition sleep :: "nat \<Rightarrow> world \<Rightarrow> world" where
  "sleep delay s = s\<lparr>now := now s + int delay, trace := trace s @ [Sleep delay]\<rparr>"

section \<open>API client\<close>

text \<open>\<open>isRetryableError\<close>: \<open>[429, 502, 503, 504].includes(errorCode)\<close>.\<close>

definition isRetryableError :: "jsval \<Rightarrow> bool" where
  "isRetryableError errorCode = (errorCode \<in> set [JNum 429, JNum 502, JNum 503, JNum 504])"

text \<open>
  The body of the \<open>try\<close> block of \<open>makeApiRequest\<close> after the fetch, up to the test of
  \<open>data.ok\<close>: what it throws, or the result it returns, or the error code of a logical
  failure. A response whose HTTP status is not OK is thrown before its body is read
  (\<open>if (!response.ok) throw\<close>). \<open>data.ok\<close> raises a TypeError when the body is the JSON
  \<open>null\<close>.
\<close>

datatype attempt = Returned jsval | LogicalFailure jsval | Thrown js_error

fun attempt_of :: "fetch_outcome \<Rightarrow> attempt" where
  "attempt_of FetchRejected = Thrown NetworkFailure"
| "attempt_of FetchAborted = Thrown AbortError"
| "attempt_of (Responded ok body) =
     (if \<not> ok then Thrown HttpError
      else case body of
        None \<Rightarrow> Thrown SyntaxError
      | Some data \<Rightarrow>
          if nullish data then Thrown TypeError
          else if truthy (jsprop data ''ok'') then Returned (jsprop data ''result'')
          else LogicalFailure (jsprop data ''error_code''))"

text \<open>
  \<open>makeApiRequest\<close>: the \<open>catch\<close> block takes whatever the \<open>try\<close> block throws, and
  nothing in it throws; the recursive call is the retry. The log lines interpolate the
  method name and numbers only.
\<close>

function makeApiRequest ::
  "config \<Rightarrow> remote \<Rightarrow> string \<Rightarrow> jsval \<Rightarrow> nat \<Rightarrow> world \<Rightarrow> jsval \<times> world" where
  "makeApiRequest cfg remote method params retryCount s =
     (case do_fetch remote method params retryCount s of (outcome, s1) \<Rightarrow>
        (case attempt_of outcome of
           Returned result \<Rightarrow> (result, s1)
         | LogicalFailure error_code \<Rightarrow>
             if retryCount < MAX_RETRIES cfg \<and> isRetryableError error_code
             then makeApiRequest cfg remote method params (retryCount + 1)
                    (sleep (2 ^ retryCount * 1000) s1)
             else (JNull, s1)
         | Thrown error \<Rightarrow>
             if retryCount < MAX_RETRIES cfg
             then makeApiRequest cfg remote method params (retryCount + 1)
                    (sleep (2 ^ retryCount * 1000) s1)
             else (JNull, s1)))"
  by pat_completeness auto
termination
  by (relation "measure (\<lambda>(cfg, remote, method, params, retryCount, s). MAX_RETRIES cfg - retryCount)") auto

section \<open>Chat metadata cache\<close>

text \<open>
  \<open>getChatInfo\<close>. The cache key is a template literal over the chat id, evaluated before
  the \<open>try\<close> block: for an id that cannot be converted the function raises, with no effect.
  The \<open>try\<close>/\<open>catch\<close> around the request has nothing to catch: \<open>makeApiRequest\<close> returns in
  every case, and the log lines interpolate the chat id, which has been converted before.
\<close>

definition getChatInfo ::
  "config \<Rightarrow> remote \<Rightarrow> jsval \<Rightarrow> world \<Rightarrow> (js_error + jsval) \<times> world" where
  "getChatInfo cfg remote chatId s =
     (case js_to_string chatId of
        Inl error \<Rightarrow> (Inl error, s)
      | Inr idString \<Rightarrow>
          (let cacheKey = ''chat_'' @ idString;
               now0 = now s;
               hit = (case chatInfoCache s cacheKey of
                        Some (data, timestamp) \<Rightarrow> if now0 - timestamp < CACHE_TTL cfg then Some data else None
                      | None \<Rightarrow> None)
           in case hit of
                Some data \<Rightarrow> (Inr data, s)
              | None \<Rightarrow>
                  (case makeApiRequest cfg remote ''getChat'' (JObj [(''chat_id'', chatId)]) 0
                          (s\<lparr>chatInfoCache := (chatInfoCache s)(cacheKey := None)\<rparr>) of
                     (chatInfo, s2) \<Rightarrow>
                       if truthy chatInfo
                       then (Inr chatInfo,
                             s2\<lparr>chatInfoCache := (chatInfoCache s2)(cacheKey \<mapsto> (chatInfo, now0))\<rparr>)
                       else (Inr chatInfo, s2))))"

section \<open>Classifier\<close>

record classification =
  isCrossChannel :: bool
  isExternal :: bool
  channelInfo :: jsval
  replyType :: string

text \<open>\<open>isLinkedChannel\<close>: \<open>groupChat.linked_chat_id && groupChat.linked_chat_id === channelChatId\<close>.\<close>

definition isLinkedChannel :: "jsval \<Rightarrow> jsval \<Rightarrow> jsval" where
  "isLinkedChannel groupChat channelChatId =
     js_and (jsprop groupChat ''linked_chat_id'')
            (JBool (strict_eq (jsprop groupChat ''linked_chat_id'') channelChatId))"

definition channel_info_of :: "jsval \<Rightarrow> jsval" where
  "channel_info_of chat =
     JObj [(''id'', jsprop chat ''id''),
           (''title'', js_or (jsprop chat ''title'') (JStr ''Unknown Channel'')),
           (''username'', js_or (jsprop chat ''username'') JNull)]"

text \<open>
  The linked-or-external branch the first three cases share:
  \<open>if (currentChatInfo && isLinkedChannel(currentChatInfo, chat.id))\<close>. Either branch ends
  with a log line that interpolates \<open>message.message_id\<close> and the title of the channel, and
  raises when one of them cannot be converted; the result is returned after it.
\<close>

definition channel_result :: "string \<Rightarrow> jsval \<Rightarrow> jsval \<Rightarrow> jsval \<Rightarrow> js_error + classification" where
  "channel_result rtype message currentChatInfo chat =
     (if interpolates [jsprop message ''message_id'', jsprop chat ''title'']
      then Inr \<lparr>isCrossChannel = True,
                isExternal = (\<not> truthy (js_and currentChatInfo (isLinkedChannel currentChatInfo (jsprop chat ''id'')))),
                channelInfo = channel_info_of chat,
                replyType = rtype\<rparr>
      else Inl TypeError)"

definition no_result :: classification where
  "no_result = \<lparr>isCrossChannel = False, isExternal = False, channelInfo = JObj [], replyType = ''none''\<rparr>"

text \<open>
  The cases of \<open>detectCrossChannelReply\<close>, in the order of the source, on the metadata the
  lookup at the top of the function returned. The case of the hidden forward logs
  \<open>message.message_id\<close>; the case of the signature interpolates the signature into the
  title, and logs \<open>message.message_id\<close> and the signature.
\<close>

definition detect_cases :: "jsval \<Rightarrow> jsval \<Rightarrow> js_error + classification" where
  "detect_cases message currentChatInfo =
     (let external_reply = jsprop message ''external_reply'';
          replyToMessage = jsprop message ''reply_to_message''
      in
      if truthy (js_and external_reply (jsprop external_reply ''chat'')) \<and>
         strict_eq (jsprop (jsprop external_reply ''chat'') ''type'') (JStr ''channel'')
      then channel_result ''external_reply'' message currentChatInfo (jsprop external_reply ''chat'')
      else if \<not> truthy replyToMessage then Inr no_result
      else if truthy (js_and (jsprop replyToMessage ''forward_from_chat'')
                (JBool (strict_eq (jsprop (jsprop replyToMessage ''forward_from_chat'') ''type'') (JStr ''channel''))))
      then channel_result ''forward_from_channel'' message currentChatInfo (jsprop replyToMessage ''forward_from_chat'')
      else if truthy (js_and (jsprop replyToMessage ''sender_chat'')
                (JBool (strict_eq (jsprop (jsprop replyToMessage ''sender_chat'') ''type'') (JStr ''channel''))))
      then channel_result ''sender_chat_channel'' message currentChatInfo (jsprop replyToMessage ''sender_chat'')
      else if truthy (js_or (jsprop replyToMessage ''forward_sender_name'') (jsprop replyToMessage ''forward_date''))
      then (if interpolates [jsprop message ''message_id'']
            then Inr \<lparr>isCrossChannel = True, isExternal = True,
                      channelInfo = JObj [(''id'', JNull),
                                          (''title'', js_or (jsprop replyToMessage ''forward_sender_name'') (JStr ''Hidden Source'')),
                                          (''username'', JNull)],
                      replyType = ''hidden_forward''\<rparr>
            else Inl TypeError)
      else if truthy (jsprop replyToMessage ''forward_signature'')
      then (case js_to_string (jsprop replyToMessage ''forward_signature'') of
              Inl error \<Rightarrow> Inl error
            | Inr signature \<Rightarrow>
                if interpolates [jsprop message ''message_id'', jsprop replyToMessage ''forward_signature'']
                then Inr \<lparr>isCrossChannel = True, isExternal = True,
                          channelInfo = JObj [(''id'', JNull),
                                              (''title'', JStr (''Channel (signature: '' @ signature @ '')'')),
                                              (''username'', JNull)],
                          replyType = ''channel_signature''\<rparr>
                else Inl TypeError)
      else Inr no_result)"

text \<open>
  \<open>detectCrossChannelReply\<close>: the metadata of the current chat is looked up first, for
  every message; \<open>message.chat.id\<close> raises a TypeError when the message or its chat is null
  or undefined, and the lookup raises when the id cannot be converted. Nothing in the
  function catches: what a log line raises after the lookup goes to the caller, and the
  lookup has been made.
\<close>

definition detectCrossChannelReply ::
  "config \<Rightarrow> remote \<Rightarrow> jsval \<Rightarrow> world \<Rightarrow> (js_error + classification) \<times> world" where
  "detectCrossChannelReply cfg remote message s =
     (if nullish message \<or> nullish (jsprop message ''chat'') then (Inl TypeError, s)
      else case getChatInfo cfg remote (jsprop (jsprop message ''chat'') ''id'') s of
             (Inl error, s1) \<Rightarrow> (Inl error, s1)
           | (Inr currentChatInfo, s1) \<Rightarrow> (detect_cases message currentChatInfo, s1))"

section \<open>Moderation action\<close>

text \<open>
  \<open>deleteWarningMessage\<close>: the first line of the \<open>try\<close> block logs the message id and the
  chat id; the \<open>catch\<close> block logs the same two values, so what the first line raises is
  raised again there and leaves the function. The result of the request is only logged.
\<close>

definition deleteWarningMessage ::
  "config \<Rightarrow> remote \<Rightarrow> jsval \<Rightarrow> jsval \<Rightarrow> world \<Rightarrow> (js_error + unit) \<times> world" where
  "deleteWarningMessage cfg remote chatId messageId s =
     (if \<not> interpolates [messageId, chatId] then (Inl TypeError, s)
      else (Inr (), snd (makeApiRequest cfg remote ''deleteMessage''
                           (JObj [(''chat_id'', chatId), (''message_id'', messageId)]) 0 s)))"

text \<open>
  \<open>scheduleMessageDeletion\<close>: the first line of the \<open>try\<close> block logs the message id and
  the delay, and the \<open>catch\<close> block logs the message id, so a message id that cannot be
  converted leaves the function as a TypeError. Otherwise the function waits for the
  delay and then runs \<open>deleteWarningMessage\<close>; what that raises is caught and logged.
\<close>

definition scheduleMessageDeletion ::
  "config \<Rightarrow> remote \<Rightarrow> jsval \<Rightarrow> jsval \<Rightarrow> nat \<Rightarrow> world \<Rightarrow> (js_error + unit) \<times> world" where
  "scheduleMessageDeletion cfg remote chatId messageId delayMs s =
     (if \<not> interpolates [messageId] then (Inl TypeError, s)
      else (Inr (), snd (deleteWarningMessage cfg remote chatId messageId (sleep delayMs s))))"

text \<open>What a task handed to \<open>ctx.waitUntil\<close> does when it runs.\<close>

fun run_task :: "config \<Rightarrow> remote \<Rightarrow> task \<Rightarrow> world \<Rightarrow> (js_error + unit) \<times> world" where
  "run_task cfg remote (ScheduleMessageDeletion chatId messageId delayMs) s =
     scheduleMessageDeletion cfg remote chatId messageId delayMs s"

text \<open>
  The body of the \<open>try\<close> block of \<open>sendWarningMessage\<close>. The first line logs the chat id.
  When the result of the request and its \<open>message_id\<close> are truthy, a line logs that id and
  the chat id, and then \<open>ctx.waitUntil(scheduleMessageDeletion(chatId, warningMessageId,
  env, CONFIG.WARNING_AUTO_DELETE_DELAY))\<close> hands the deletion over.
\<close>

definition sendWarningMessage_try ::
  "config \<Rightarrow> remote \<Rightarrow> jsval \<Rightarrow> bool \<Rightarrow> world \<Rightarrow> (js_error + unit) \<times> world" where
  "sendWarningMessage_try cfg remote chatId isEdited s =
     (if \<not> interpolates [chatId] then (Inl TypeError, s)
      else case makeApiRequest cfg remote ''sendMessage''
                  (JObj [(''chat_id'', chatId),
                         (''text'', JStr (WARNING_MESSAGE_TEXT cfg)),
                         (''parse_mode'', JStr ''HTML'')]) 0 s of
             (result, s1) \<Rightarrow>
               if truthy (js_and result (jsprop result ''message_id''))
               then (let warningMessageId = jsprop result ''message_id'' in
                     if \<not> interpolates [warningMessageId, chatId] then (Inl TypeError, s1)
                     else (Inr (), s1\<lparr>trace := trace s1 @
                             [WaitUntil (ScheduleMessageDeletion chatId warningMessageId
                                           (WARNING_AUTO_DELETE_DELAY cfg))]\<rparr>))
               else (Inr (), s1))"

text \<open>
  \<open>sendWarningMessage\<close>: the \<open>catch\<close> block logs the chat id with the error; when the chat
  id cannot be converted this raises again and leaves the function.
\<close>

definition sendWarningMessage ::
  "config \<Rightarrow> remote \<Rightarrow> jsval \<Rightarrow> bool \<Rightarrow> world \<Rightarrow> (js_error + unit) \<times> world" where
  "sendWarningMessage cfg remote chatId isEdited s =
     (case sendWarningMessage_try cfg remote chatId isEdited s of
        (Inr u, s1) \<Rightarrow> (Inr (), s1)
      | (Inl error, s1) \<Rightarrow> if interpolates [chatId] then (Inr (), s1) else (Inl TypeError, s1))"

text \<open>
  The body of the \<open>try\<close> block of \<open>deleteCrossChannelReply\<close>, for a message with a chat.
  The first line logs the message id and the chat id. Both branches on the result of the
  deletion send the warning.
\<close>

definition deleteCrossChannelReply_try ::
  "config \<Rightarrow> remote \<Rightarrow> jsval \<Rightarrow> jsval \<Rightarrow> bool \<Rightarrow> world \<Rightarrow> (js_error + unit) \<times> world" where
  "deleteCrossChannelReply_try cfg remote chatId messageId isEdited s =
     (if \<not> interpolates [messageId, chatId] then (Inl TypeError, s)
      else case makeApiRequest cfg remote ''deleteMessage''
                  (JObj [(''chat_id'', chatId), (''message_id'', messageId)]) 0 s of
             (deleteResult, s1) \<Rightarrow>
               if \<not> strict_eq deleteResult JNull
               then sendWarningMessage cfg remote chatId isEdited s1
               else sendWarningMessage cfg remote chatId isEdited s1)"

text \<open>
  \<open>deleteCrossChannelReply\<close>: \<open>message.chat.id\<close> is read before the \<open>try\<close> block, and
  raises to the caller when the message or its chat is null or undefined. The \<open>catch\<close>
  block logs the message id with the error, and raises again when the id cannot be
  converted.
\<close>

definition deleteCrossChannelReply ::
  "config \<Rightarrow> remote \<Rightarrow> jsval \<Rightarrow> bool \<Rightarrow> world \<Rightarrow> (js_error + unit) \<times> world" where
  "deleteCrossChannelReply cfg remote message isEdited s =
     (if nullish message \<or> nullish (jsprop message ''chat'') then (Inl TypeError, s)
      else
        let chatId = jsprop (jsprop message ''chat'') ''id'';
            messageId = jsprop message ''message_id''
        in case deleteCrossChannelReply_try cfg remote chatId messageId isEdited s of
             (Inr u, s1) \<Rightarrow> (Inr (), s1)
           | (Inl error, s1) \<Rightarrow> if interpolates [messageId] then (Inr (), s1) else (Inl TypeError, s1))"

section \<open>Message handling\<close>

definition startMessage :: string where
  "startMessage =
     [CHR 0xF0, CHR 0x9F, CHR 0xA4, CHR 0x96] @ '' '' @
     [CHR 0xE8, CHR 0xB7, CHR 0xA8, CHR 0xE9, CHR 0xA2, CHR 0x91, CHR 0xE9, CHR 0x81, CHR 0x93,
       CHR 0xE5, CHR 0x9B, CHR 0x9E, CHR 0xE5, CHR 0xA4, CHR 0x8D, CHR 0xE6, CHR 0x8B, CHR 0xA6,
       CHR 0xE6, CHR 0x88, CHR 0xAA, CHR 0xE6, CHR 0x9C, CHR 0xBA, CHR 0xE5, CHR 0x99, CHR 0xA8,
       CHR 0xE4, CHR 0xBA, CHR 0xBA, CHR 0x0A, CHR 0x0A, CHR 0xF0, CHR 0x9F, CHR 0x93, CHR 0x8B] @
     '' **'' @
     [CHR 0xE5, CHR 0x8A, CHR 0x9F, CHR 0xE8, CHR 0x83, CHR 0xBD, CHR 0xE8, CHR 0xAF, CHR 0xB4,
       CHR 0xE6, CHR 0x98, CHR 0x8E] @ ''**'' @
     [CHR 0x0A, CHR 0xE6, CHR 0x9C, CHR 0xAC, CHR 0xE6, CHR 0x9C, CHR 0xBA, CHR 0xE5, CHR 0x99,
       CHR 0xA8, CHR 0xE4, CHR 0xBA, CHR 0xBA, CHR 0xE5, CHR 0x8F, CHR 0xAF, CHR 0xE4, CHR 0xBB,
       CHR 0xA5, CHR 0xE8, CHR 0x87, CHR 0xAA, CHR 0xE5, CHR 0x8A, CHR 0xA8, CHR 0xE5, CHR 0x88,
       CHR 0xA0, CHR 0xE9, CHR 0x99, CHR 0xA4] @ '' Telegram '' @
     [CHR 0xE7, CHR 0xBE, CHR 0xA4, CHR 0xE7, CHR 0xBB, CHR 0x84, CHR 0xE4, CHR 0xB8, CHR 0xAD,
       CHR 0xE7, CHR 0x9A, CHR 0x84, CHR 0xE8, CHR 0xB7, CHR 0xA8, CHR 0xE9, CHR 0xA2, CHR 0x91,
       CHR 0xE9, CHR 0x81, CHR 0x93, CHR 0xE5, CHR 0x9B, CHR 0x9E, CHR 0xE5, CHR 0xA4, CHR 0x8D,
       CHR 0xE6, CHR 0xB6, CHR 0x88, CHR 0xE6, CHR 0x81, CHR 0xAF, CHR 0xEF, CHR 0xBC, CHR 0x8C,
       CHR 0xE5, CHR 0x8C, CHR 0xBA, CHR 0xE5, CHR 0x88, CHR 0x86, CHR 0xE5, CHR 0xB7, CHR 0xB2,
       CHR 0xE5, CHR 0x85, CHR 0xB3, CHR 0xE8, CHR 0x81, CHR 0x94, CHR 0xE9, CHR 0xA2, CHR 0x91,
       CHR 0xE9, CHR 0x81, CHR 0x93, CHR 0xEF, CHR 0xBC, CHR 0x88, CHR 0xE5, CHR 0x85, CHR 0x81,
       CHR 0xE8, CHR 0xAE, CHR 0xB8, CHR 0xEF, CHR 0xBC, CHR 0x89, CHR 0xE5, CHR 0x92, CHR 0x8C,
       CHR 0xE5, CHR 0xA4, CHR 0x96, CHR 0xE9, CHR 0x83, CHR 0xA8, CHR 0xE9, CHR 0xA2, CHR 0x91,
       CHR 0xE9, CHR 0x81, CHR 0x93, CHR 0xEF, CHR 0xBC, CHR 0x88, CHR 0xE7, CHR 0xA6, CHR 0x81,
       CHR 0xE6, CHR 0xAD, CHR 0xA2, CHR 0xEF, CHR 0xBC, CHR 0x89, CHR 0xE3, CHR 0x80, CHR 0x82,
       CHR 0x0A, CHR 0x0A, CHR 0xF0, CHR 0x9F, CHR 0x94, CHR 0xA7] @ '' **'' @
     [CHR 0xE4, CHR 0xBD, CHR 0xBF, CHR 0xE7, CHR 0x94, CHR 0xA8, CHR 0xE6, CHR 0x96, CHR 0xB9,
       CHR 0xE6, CHR 0xB3, CHR 0x95] @ ''**'' @ [CHR 0x0A, CHR 0xE2, CHR 0x80, CHR 0xA2] @ '' '' @
     [CHR 0xE5, CHR 0xB0, CHR 0x86, CHR 0xE6, CHR 0x9C, CHR 0xBA, CHR 0xE5, CHR 0x99, CHR 0xA8,
       CHR 0xE4, CHR 0xBA, CHR 0xBA, CHR 0xE6, CHR 0x8B, CHR 0x89, CHR 0xE8, CHR 0xBF, CHR 0x9B,
       CHR 0xE7, CHR 0xBE, CHR 0xA4, CHR 0xE7, CHR 0xBB, CHR 0x84, CHR 0x0A, CHR 0xE2, CHR 0x80,
       CHR 0xA2] @ '' '' @
     [CHR 0xE8, CHR 0xAE, CHR 0xBE, CHR 0xE7, CHR 0xBD, CHR 0xAE, CHR 0xE4, CHR 0xB8, CHR 0xBA,
       CHR 0xE7, CHR 0xAE, CHR 0xA1, CHR 0xE7, CHR 0x90, CHR 0x86, CHR 0xE5, CHR 0x91, CHR 0x98,
       CHR 0xE5, CHR 0xB9, CHR 0xB6, CHR 0xE7, CHR 0xBB, CHR 0x99, CHR 0xE4, CHR 0xBA, CHR 0x88,
       CHR 0x22, CHR 0xE5, CHR 0x88, CHR 0xA0, CHR 0xE9, CHR 0x99, CHR 0xA4, CHR 0xE6, CHR 0xB6,
       CHR 0x88, CHR 0xE6, CHR 0x81, CHR 0xAF, CHR 0x22, CHR 0xE5, CHR 0x92, CHR 0x8C, CHR 0x22,
       CHR 0xE5, CHR 0x8F, CHR 0x91, CHR 0xE9, CHR 0x80, CHR 0x81, CHR 0xE6, CHR 0xB6, CHR 0x88,
       CHR 0xE6, CHR 0x81, CHR 0xAF, CHR 0x22, CHR 0xE6, CHR 0x9D, CHR 0x83, CHR 0xE9, CHR 0x99,
       CHR 0x90, CHR 0x0A, CHR 0xE2, CHR 0x80, CHR 0xA2] @ '' '' @
     [CHR 0xE6, CHR 0x97, CHR 0xA0, CHR 0xE9, CHR 0x9C, CHR 0x80, CHR 0xE4, CHR 0xBB, CHR 0xBB,
       CHR 0xE4, CHR 0xBD, CHR 0x95, CHR 0xE5, CHR 0x85, CHR 0xB6, CHR 0xE4, CHR 0xBB, CHR 0x96,
       CHR 0xE9, CHR 0x85, CHR 0x8D, CHR 0xE7, CHR 0xBD, CHR 0xAE, CHR 0xEF, CHR 0xBC, CHR 0x8C,
       CHR 0xE6, CHR 0x9C, CHR 0xBA, CHR 0xE5, CHR 0x99, CHR 0xA8, CHR 0xE4, CHR 0xBA, CHR 0xBA,
       CHR 0xE8, CHR 0x87, CHR 0xAA, CHR 0xE5, CHR 0x8A, CHR 0xA8, CHR 0xE5, CHR 0xBC, CHR 0x80,
       CHR 0xE5, CHR 0xA7, CHR 0x8B, CHR 0xE5, CHR 0xB7, CHR 0xA5, CHR 0xE4, CHR 0xBD, CHR 0x9C,
       CHR 0x0A, CHR 0x0A, CHR 0xF0, CHR 0x9F, CHR 0x93, CHR 0x96] @ '' **'' @
     [CHR 0xE5, CHR 0xBC, CHR 0x80, CHR 0xE6, CHR 0xBA, CHR 0x90, CHR 0xE4, CHR 0xBB, CHR 0x93,
       CHR 0xE5, CHR 0xBA, CHR 0x93] @ ''**'' @ [CHR 0x0A] @
     ''https://github.com/SCSHIRKER/ccrbb'' @
     [CHR 0x0A, CHR 0x0A, CHR 0xF0, CHR 0x9F, CHR 0x91, CHR 0xA8, CHR 0xE2, CHR 0x80, CHR 0x8D,
       CHR 0xF0, CHR 0x9F, CHR 0x92, CHR 0xBB] @ '' **'' @
     [CHR 0xE4, CHR 0xBD, CHR 0x9C, CHR 0xE8, CHR 0x80, CHR 0x85] @ ''**'' @ [CHR 0x0A] @
     ''@as24400'' @ [CHR 0x0A, CHR 0x0A, CHR 0xF0, CHR 0x9F, CHR 0x92, CHR 0xA1] @ '' **'' @
     [CHR 0xE5, CHR 0x8E, CHR 0x9F, CHR 0xE7, CHR 0x90, CHR 0x86] @ ''**'' @
     [CHR 0x0A, CHR 0xE6, CHR 0x9C, CHR 0xBA, CHR 0xE5, CHR 0x99, CHR 0xA8, CHR 0xE4, CHR 0xBA,
       CHR 0xBA, CHR 0xE4, CHR 0xBC, CHR 0x9A, CHR 0xE8, CHR 0x87, CHR 0xAA, CHR 0xE5, CHR 0x8A,
       CHR 0xA8, CHR 0xE5, CHR 0x8C, CHR 0xBA, CHR 0xE5, CHR 0x88, CHR 0x86, CHR 0xE5, CHR 0x85,
       CHR 0xB3, CHR 0xE8, CHR 0x81, CHR 0x94, CHR 0xE9, CHR 0xA2, CHR 0x91, CHR 0xE9, CHR 0x81,
       CHR 0x93, CHR 0xE5, CHR 0x9B, CHR 0x9E, CHR 0xE5, CHR 0xA4, CHR 0x8D, CHR 0xEF, CHR 0xBC,
       CHR 0x88, CHR 0xE5, CHR 0x85, CHR 0x81, CHR 0xE8, CHR 0xAE, CHR 0xB8, CHR 0xEF, CHR 0xBC,
       CHR 0x89, CHR 0xE5, CHR 0x92, CHR 0x8C, CHR 0xE5, CHR 0xA4, CHR 0x96, CHR 0xE9, CHR 0x83,
       CHR 0xA8, CHR 0xE9, CHR 0xA2, CHR 0x91, CHR 0xE9, CHR 0x81, CHR 0x93, CHR 0xE5, CHR 0x9B,
       CHR 0x9E, CHR 0xE5, CHR 0xA4, CHR 0x8D, CHR 0xEF, CHR 0xBC, CHR 0x88, CHR 0xE5, CHR 0x88,
       CHR 0xA0, CHR 0xE9, CHR 0x99, CHR 0xA4, CHR 0xE5, CHR 0xB9, CHR 0xB6, CHR 0xE8, CHR 0xAD,
       CHR 0xA6, CHR 0xE5, CHR 0x91, CHR 0x8A, CHR 0xEF, CHR 0xBC, CHR 0x89, CHR 0xE3, CHR 0x80,
       CHR 0x82]"

definition helpMessage :: string where
  "helpMessage =
     [CHR 0xE2, CHR 0x9D, CHR 0x93] @ '' '' @
     [CHR 0xE8, CHR 0xAF, CHR 0xB7, CHR 0xE5, CHR 0x8F, CHR 0x91, CHR 0xE9, CHR 0x80, CHR 0x81] @
     '' /start '' @
     [CHR 0xE6, CHR 0x9F, CHR 0xA5, CHR 0xE7, CHR 0x9C, CHR 0x8B, CHR 0xE4, CHR 0xBD, CHR 0xBF,
       CHR 0xE7, CHR 0x94, CHR 0xA8, CHR 0xE8, CHR 0xAF, CHR 0xB4, CHR 0xE6, CHR 0x98, CHR 0x8E,
       CHR 0x0A, CHR 0x0A, CHR 0xE6, CHR 0x88, CHR 0x96, CHR 0xE8, CHR 0x80, CHR 0x85, CHR 0xE7,
       CHR 0x9B, CHR 0xB4, CHR 0xE6, CHR 0x8E, CHR 0xA5, CHR 0xE5, CHR 0xB0, CHR 0x86, CHR 0xE6,
       CHR 0x88, CHR 0x91, CHR 0xE6, CHR 0xB7, CHR 0xBB, CHR 0xE5, CHR 0x8A, CHR 0xA0, CHR 0xE5,
       CHR 0x88, CHR 0xB0, CHR 0xE7, CHR 0xBE, CHR 0xA4, CHR 0xE7, CHR 0xBB, CHR 0x84, CHR 0xE4,
       CHR 0xB8, CHR 0xAD, CHR 0xE5, CHR 0xB9, CHR 0xB6, CHR 0xE8, CHR 0xAE, CHR 0xBE, CHR 0xE4,
       CHR 0xB8, CHR 0xBA, CHR 0xE7, CHR 0xAE, CHR 0xA1, CHR 0xE7, CHR 0x90, CHR 0x86, CHR 0xE5,
       CHR 0x91, CHR 0x98, CHR 0xE5, CHR 0x8D, CHR 0xB3, CHR 0xE5, CHR 0x8F, CHR 0xAF, CHR 0xE5,
       CHR 0xBC, CHR 0x80, CHR 0xE5, CHR 0xA7, CHR 0x8B, CHR 0xE4, CHR 0xBD, CHR 0xBF, CHR 0xE7,
       CHR 0x94, CHR 0xA8, CHR 0xE3, CHR 0x80, CHR 0x82]"


text \<open>
  The body of the \<open>try\<close> block of \<open>handlePrivateMessage\<close>. A message without text is
  logged with its \<open>message_id\<close>. \<open>message.text.trim()\<close> raises a TypeError when the text is
  truthy and not a string. The log line of the \<open>/start\<close> branch reads \<open>message.from.id\<close>,
  which raises when the message has no sender, and interpolates that id and the sender's
  name; the line after the request interpolates the id again.
\<close>

definition handlePrivateMessage_try ::
  "config \<Rightarrow> remote \<Rightarrow> jsval \<Rightarrow> world \<Rightarrow> (js_error + unit) \<times> world" where
  "handlePrivateMessage_try cfg remote message s =
     (if nullish message then (Inl TypeError, s)
      else if \<not> truthy (jsprop message ''text'')
      then (if interpolates [jsprop message ''message_id''] then (Inr (), s) else (Inl TypeError, s))
      else (case jsprop message ''text'' of
        JStr str \<Rightarrow>
          (let messageText = trim str in
           if messageText = ''/start'' \<or> startsWith messageText ''/start ''
           then
             (if nullish (jsprop message ''from'') then (Inl TypeError, s)
              else if \<not> interpolates [jsprop (jsprop message ''from'') ''id'',
                                       js_or (jsprop (jsprop message ''from'') ''username'')
                                             (jsprop (jsprop message ''from'') ''first_name'')]
              then (Inl TypeError, s)
              else if nullish (jsprop message ''chat'') then (Inl TypeError, s)
              else (Inr (), snd (makeApiRequest cfg remote ''sendMessage''
                                  (JObj [(''chat_id'', jsprop (jsprop message ''chat'') ''id''),
                                         (''text'', JStr startMessage),
                                         (''parse_mode'', JStr ''Markdown''),
                                         (''disable_web_page_preview'', JBool True)]) 0 s)))
           else
             (if nullish (jsprop message ''chat'') then (Inl TypeError, s)
              else (Inr (), snd (makeApiRequest cfg remote ''sendMessage''
                                   (JObj [(''chat_id'', jsprop (jsprop message ''chat'') ''id''),
                                          (''text'', JStr helpMessage)]) 0 s))))
      | _ \<Rightarrow> (Inl TypeError, s)))"

text \<open>
  \<open>handlePrivateMessage\<close>: the \<open>catch\<close> block logs \<open>message?.message_id\<close> with the error,
  and raises again when that id cannot be converted.
\<close>

definition handlePrivateMessage ::
  "config \<Rightarrow> remote \<Rightarrow> jsval \<Rightarrow> world \<Rightarrow> (js_error + unit) \<times> world" where
  "handlePrivateMessage cfg remote message s =
     (case handlePrivateMessage_try cfg remote message s of
        (Inr u, s1) \<Rightarrow> (Inr (), s1)
      | (Inl error, s1) \<Rightarrow>
          if interpolates [jsprop message ''message_id''] then (Inr (), s1) else (Inl TypeError, s1))"

text \<open>
  The body of the \<open>try\<close> block of \<open>handleMessage\<close>. The log lines: a message of a chat
  that is neither private nor a group is logged with the chat type and its \<open>message_id\<close>; a
  bot's message with the sender's name; \<open>messageInfo\<close> interpolates \<open>message_id\<close> and
  \<open>message.chat.id\<close> before the classifier is called; and an external reply is logged with
  the title the classifier put into \<open>channelInfo\<close>, before the moderation action.
\<close>

definition handleMessage_try ::
  "config \<Rightarrow> remote \<Rightarrow> jsval \<Rightarrow> bool \<Rightarrow> world \<Rightarrow> (js_error + unit) \<times> world" where
  "handleMessage_try cfg remote message isEdited s =
     (if \<not> truthy message \<or> \<not> truthy (jsprop message ''message_id'') \<or> \<not> truthy (jsprop message ''chat'')
      then (Inr (), s)
      else
        let chatType = jsprop (jsprop message ''chat'') ''type'' in
        if strict_eq chatType (JStr ''private'')
        then handlePrivateMessage cfg remote message s
        else if \<not> strict_eq chatType (JStr ''group'') \<and> \<not> strict_eq chatType (JStr ''supergroup'')
        then (if interpolates [chatType, jsprop message ''message_id''] then (Inr (), s) else (Inl TypeError, s))
        else if truthy (js_and (jsprop message ''from'') (jsprop (jsprop message ''from'') ''is_bot''))
        then (if interpolates [js_or (jsprop (jsprop message ''from'') ''username'')
                                     (jsprop (jsprop message ''from'') ''first_name'')]
              then (Inr (), s) else (Inl TypeError, s))
        else if \<not> interpolates [jsprop message ''message_id'', jsprop (jsprop message ''chat'') ''id'']
        then (Inl TypeError, s)
        else
          case detectCrossChannelReply cfg remote message s of
            (Inl error, s1) \<Rightarrow> (Inl error, s1)
          | (Inr crossChannelInfo, s1) \<Rightarrow>
              if isCrossChannel crossChannelInfo \<and> isExternal crossChannelInfo
              then (if \<not> interpolates [jsprop (channelInfo crossChannelInfo) ''title'']
                    then (Inl TypeError, s1)
                    else deleteCrossChannelReply cfg remote message isEdited s1)
              else (Inr (), s1))"

text \<open>
  \<open>handleMessage\<close>: the \<open>catch\<close> block logs \<open>message?.message_id\<close> with the error, and
  raises again, into \<open>processUpdate\<close>, when that id cannot be converted.
\<close>

definition handleMessage ::
  "config \<Rightarrow> remote \<Rightarrow> jsval \<Rightarrow> bool \<Rightarrow> world \<Rightarrow> (js_error + unit) \<times> world" where
  "handleMessage cfg remote message isEdited s =
     (case handleMessage_try cfg remote message isEdited s of
        (Inr u, s1) \<Rightarrow> (Inr (), s1)
      | (Inl error, s1) \<Rightarrow>
          if interpolates [jsprop message ''message_id''] then (Inr (), s1) else (Inl TypeError, s1))"

text \<open>
  The body of the \<open>try\<close> block of \<open>processUpdate\<close>, for an update that is neither null nor
  undefined: when the handling of \<open>update.message\<close> raises, \<open>update.edited_message\<close> is not
  handled.
\<close>

definition processUpdate_try ::
  "config \<Rightarrow> remote \<Rightarrow> jsval \<Rightarrow> world \<Rightarrow> (js_error + unit) \<times> world" where
  "processUpdate_try cfg remote update s =
     (case (if truthy (jsprop update ''message'')
            then handleMessage cfg remote (jsprop update ''message'') False s
            else (Inr (), s)) of
        (Inl error, s1) \<Rightarrow> (Inl error, s1)
      | (Inr u, s1) \<Rightarrow>
          if truthy (jsprop update ''edited_message'')
          then handleMessage cfg remote (jsprop update ''edited_message'') True s1
          else (Inr (), s1))"

text \<open>
  \<open>processUpdate\<close>. \<open>update.message\<close> raises when the update is null or undefined, and the
  \<open>catch\<close> block, which reads \<open>update.update_id\<close> for its log line, raises again on such an
  update. On any other update the \<open>catch\<close> block logs the \<open>update_id\<close> with the error and
  returns, unless the \<open>update_id\<close> cannot be converted.
\<close>

definition processUpdate :: "config \<Rightarrow> remote \<Rightarrow> jsval \<Rightarrow> world \<Rightarrow> (js_error + unit) \<times> world" where
  "processUpdate cfg remote update s =
     (if nullish update then (Inl TypeError, s)
      else case processUpdate_try cfg remote update s of
             (Inr u, s1) \<Rightarrow> (Inr (), s1)
           | (Inl error, s1) \<Rightarrow>
               if interpolates [jsprop update ''update_id''] then (Inr (), s1) else (Inl TypeError, s1))"

section \<open>Requests and responses\<close>

text \<open>
  Of a request the worker reads the method, the path and the origin of its URL, three
  headers, and the body through \<open>request.json()\<close> (\<open>None\<close> when that rejects). A header
  the request does not carry is \<open>None\<close>.
\<close>

record request =
  req_method :: string
  pathname :: string
  origin :: string
  cf_connecting_ip :: "string option"
  x_forwarded_for :: "string option"
  content_type :: "string option"
  json_body :: "jsval option"

text \<open>
  A response body is a text or the JSON text of an object: the health report (with the
  time), or the report of the webhook registration (success, the webhook URL, the time).
\<close>

datatype body = Text string | HealthJson int | SetupJson bool string int

record response =
  status :: nat
  body :: body
  headers :: "(string \<times> string) list"

section \<open>Rate limiter\<close>

text \<open>\<open>getClientIP\<close>: an empty header value is falsy, like a missing one.\<close>

definition getClientIP :: "request \<Rightarrow> string" where
  "getClientIP request =
     (case cf_connecting_ip request of
        Some ip \<Rightarrow> if ip \<noteq> [] then ip
                   else (case x_forwarded_for request of
                           Some ip' \<Rightarrow> if ip' \<noteq> [] then ip' else ''unknown''
                         | None \<Rightarrow> ''unknown'')
      | None \<Rightarrow> (case x_forwarded_for request of
                   Some ip' \<Rightarrow> if ip' \<noteq> [] then ip' else ''unknown''
                 | None \<Rightarrow> ''unknown''))"

record rate_limit_result =
  allowed :: bool
  count :: nat

definition checkRateLimit :: "config \<Rightarrow> request \<Rightarrow> world \<Rightarrow> rate_limit_result \<times> world" where
  "checkRateLimit cfg request s =
     (let clientIP = getClientIP request;
          now0 = now s;
          windowStart = now0 - RATE_LIMIT_WINDOW cfg;
          cleaned = (\<lambda>ip. case rateLimitTracker s ip of
                            None \<Rightarrow> None
                          | Some timestamps \<Rightarrow>
                              (let validTimestamps = filter (\<lambda>ts. ts > windowStart) timestamps
                               in if length validTimestamps = 0 then None else Some validTimestamps));
          currentTimestamps = (case cleaned clientIP of Some timestamps \<Rightarrow> timestamps | None \<Rightarrow> []);
          validTimestamps = filter (\<lambda>ts. ts > windowStart) currentTimestamps
      in if length validTimestamps \<ge> MAX_REQUESTS_PER_WINDOW cfg
         then (\<lparr>allowed = False, count = length validTimestamps\<rparr>,
               s\<lparr>rateLimitTracker := cleaned\<rparr>)
         else (\<lparr>allowed = True, count = length (validTimestamps @ [now0])\<rparr>,
               s\<lparr>rateLimitTracker := cleaned(clientIP \<mapsto> validTimestamps @ [now0])\<rparr>))"

section \<open>Router\<close>

text \<open>
  \<open>handleWebhook\<close>. After the update has passed the checks, a line logs its \<open>update_id\<close>,
  inside the outer \<open>try\<close> block; the outer \<open>catch\<close> answers 500 to whatever the \<open>try\<close> block
  throws.
\<close>

definition handleWebhook :: "config \<Rightarrow> remote \<Rightarrow> request \<Rightarrow> world \<Rightarrow> response \<times> world" where
  "handleWebhook cfg remote request s =
     (case content_type request of
        None \<Rightarrow> (\<lparr>status = 400, body = Text ''Invalid Content-Type'', headers = []\<rparr>, s)
      | Some contentType \<Rightarrow>
          (if contentType = [] \<or> \<not> str_includes contentType ''application/json''
           then (\<lparr>status = 400, body = Text ''Invalid Content-Type'', headers = []\<rparr>, s)
           else (case json_body request of
             None \<Rightarrow> (\<lparr>status = 400, body = Text ''Invalid JSON'', headers = []\<rparr>, s)
           | Some update \<Rightarrow>
               (if \<not> truthy update \<or> typeof update \<noteq> ''object'' \<or> \<not> truthy (jsprop update ''update_id'')
                then (\<lparr>status = 400, body = Text ''Invalid update format'', headers = []\<rparr>, s)
                else if \<not> interpolates [jsprop update ''update_id'']
                then (\<lparr>status = 500, body = Text ''Internal Server Error'', headers = []\<rparr>, s)
                else (case processUpdate cfg remote update s of
                        (Inr u, s1) \<Rightarrow> (\<lparr>status = 200, body = Text ''OK'', headers = []\<rparr>, s1)
                      | (Inl error, s1) \<Rightarrow>
                          (\<lparr>status = 500, body = Text ''Internal Server Error'', headers = []\<rparr>, s1))))))"

text \<open>
  \<open>setupWebhook\<close>. Nothing in its \<open>try\<close> block throws, so the \<open>catch\<close> block is not
  reached.
\<close>

definition setupWebhook :: "config \<Rightarrow> remote \<Rightarrow> request \<Rightarrow> world \<Rightarrow> response \<times> world" where
  "setupWebhook cfg remote request s =
     (let webhookUrl = origin request @ ''/webhook'' in
      case makeApiRequest cfg remote ''setWebhook''
             (JObj [(''url'', JStr webhookUrl),
                    (''allowed_updates'', JArr [JStr ''message'', JStr ''edited_message'']),
                    (''drop_pending_updates'', JBool True),
                    (''max_connections'', JNum 40)]) 0 s of
        (result, s1) \<Rightarrow>
          if \<not> strict_eq result JNull
          then (\<lparr>status = 200, body = SetupJson True webhookUrl (now s1),
                 headers = [(''Content-Type'', ''application/json'')]\<rparr>, s1)
          else (\<lparr>status = 500, body = SetupJson False ''Failed to set webhook'' (now s1),
                 headers = [(''Content-Type'', ''application/json'')]\<rparr>, s1))"

definition handleRequest :: "config \<Rightarrow> remote \<Rightarrow> request \<Rightarrow> world \<Rightarrow> response \<times> world" where
  "handleRequest cfg remote request s =
     (case checkRateLimit cfg request s of
        (rateLimitResult, s1) \<Rightarrow>
          if \<not> allowed rateLimitResult
          then (\<lparr>status = 429, body = Text ''Rate limit exceeded'',
                 headers = [(''Retry-After'', ''60'')]\<rparr>, s1)
          else if pathname request = ''/health'' \<and> req_method request = ''GET''
          then (\<lparr>status = 200, body = HealthJson (now s1),
                 headers = [(''Content-Type'', ''application/json'')]\<rparr>, s1)
          else if pathname request = ''/webhook'' \<and> req_method request = ''POST''
          then handleWebhook cfg remote request s1
          else if pathname request = ''/setup'' \<and> req_method request = ''GET''
          then setupWebhook cfg remote request s1
          else (\<lparr>status = 404, body = Text ''Not Found'', headers = []\<rparr>, s1))"

text \<open>
  The worker's \<open>fetch\<close> entry point; \<open>bot_token\<close> is \<open>env.BOT_TOKEN\<close>. \<open>handleRequest\<close>
  returns in every case, so the \<open>catch\<close> block is not reached.
\<close>

definition worker_fetch ::
  "config \<Rightarrow> remote \<Rightarrow> string option \<Rightarrow> request \<Rightarrow> world \<Rightarrow> response \<times> world" where
  "worker_fetch cfg remote bot_token request s =
     (if bot_token = None \<or> bot_token = Some []
      then (\<lparr>status = 500, body = Text ''Configuration Error'', headers = []\<rparr>, s)
      else handleRequest cfg remote request s)"

section \<open>Serving requests\<close>

text \<open>
  The worker handling requests one after the other: each request is handled when the
  clock reads its arrival time. The responses are returned in order.
\<close>

fun serve :: "config \<Rightarrow> remote \<Rightarrow> (int \<times> request) list \<Rightarrow> world \<Rightarrow> response list \<times> world" where
  "serve cfg remote [] s = ([], s)"
| "serve cfg remote ((t, request) # rest) s =
     (case handleRequest cfg remote request (s\<lparr>now := t\<rparr>) of
        (response, s1) \<Rightarrow>
          (case serve cfg remote rest s1 of
             (responses, s2) \<Rightarrow> (response # responses, s2)))"

section \<open>Reading traces and states\<close>

text \<open>The timestamps the rate limiter holds for an address.\<close>

definition counted :: "world \<Rightarrow> string \<Rightarrow> int list" where
  "counted s ip = (case rateLimitTracker s ip of None \<Rightarrow> [] | Some timestamps \<Rightarrow> timestamps)"

text \<open>The responses, in order, to the requests of one client address.\<close>

definition responses_to :: "string \<Rightarrow> (int \<times> request) list \<Rightarrow> response list \<Rightarrow> response list" where
  "responses_to ip reqs responses =
     map snd (filter (\<lambda>(arrival, response). getClientIP (snd arrival) = ip) (zip reqs responses))"

text \<open>No address has more timestamps counted than the limit.\<close>

definition tracker_bounded :: "config \<Rightarrow> world \<Rightarrow> bool" where
  "tracker_bounded cfg s = (\<forall>ip. length (counted s ip) \<le> MAX_REQUESTS_PER_WINDOW cfg)"

text \<open>
  The requests \<open>handleWebhook\<close> answers with 400: no Content-Type or one that does not
  contain \<open>application/json\<close>, a body that does not parse, or a parsed body that is not a
  non-null object (or array) with a truthy \<open>update_id\<close>.
\<close>

definition webhook_rejected :: "request \<Rightarrow> bool" where
  "webhook_rejected request =
     (case content_type request of
        None \<Rightarrow> True
      | Some contentType \<Rightarrow>
          \<not> str_includes contentType ''application/json'' \<or>
          (case json_body request of
             None \<Rightarrow> True
           | Some update \<Rightarrow>
               typeof update \<noteq> ''object'' \<or> update = JNull \<or> \<not> truthy (jsprop update ''update_id'')))"


text \<open>
  An attempt that \<open>makeApiRequest\<close> retries: anything thrown, or a logical failure with a
  retryable error code.
\<close>

definition retryable_failure :: "attempt \<Rightarrow> bool" where
  "retryable_failure a =
     (case a of Returned r \<Rightarrow> False | LogicalFailure c \<Rightarrow> isRetryableError c | Thrown e \<Rightarrow> True)"



text \<open>
  The effects of one call of \<open>makeApiRequest\<close> whose attempts \<open>from\<close> to \<open>n - 1\<close> are
  retried and whose attempt \<open>n\<close> is the last: each retried attempt is a fetch followed by
  a delay of \<open>2 ^ i * 1000\<close> milliseconds.
\<close>

definition retry_schedule :: "string \<Rightarrow> jsval \<Rightarrow> nat \<Rightarrow> nat \<Rightarrow> effect list" where
  "retry_schedule method params from n =
     concat (map (\<lambda>i. [Fetch method params i, Sleep (2 ^ i * 1000)]) [from..<n]) @ [Fetch method params n]"

text \<open>
  The number of calls \<open>makeApiRequest(method, params)\<close> a trace shows: the fetches of
  first attempts (retry count 0).
\<close>

definition api_calls :: "string \<Rightarrow> jsval \<Rightarrow> effect list \<Rightarrow> nat" where
  "api_calls method params tr = length (filter (\<lambda>e. e = Fetch method params 0) tr)"

section \<open>Sample inputs\<close>

text \<open>A freshly started worker: both maps are empty.\<close>

definition initial_world :: "int \<Rightarrow> world" where
  "initial_world t = \<lparr>now = t, fetches = 0, trace = [], chatInfoCache = Map.empty, rateLimitTracker = Map.empty\<rparr>"

text \<open>A remote side that gives every fetch the same outcome after the same time.\<close>

definition always :: "nat \<Rightarrow> fetch_outcome \<Rightarrow> remote" where
  "always d outcome = (\<lambda>n. (d, outcome))"

definition ok_response :: "jsval \<Rightarrow> fetch_outcome" where
  "ok_response result = Responded True (Some (JObj [(''ok'', JBool True), (''result'', result)]))"

definition error_response :: "int \<Rightarrow> fetch_outcome" where
  "error_response code = Responded True (Some (JObj [(''ok'', JBool False), (''error_code'', JNum code)]))"

definition group_chat :: jsval where
  "group_chat = JObj [(''id'', JNum (- 1001)), (''type'', JStr ''supergroup'')]"

definition reply_to_channel :: "int \<Rightarrow> jsval" where
  "reply_to_channel cid =
     JObj [(''message_id'', JNum 7), (''chat'', group_chat),
           (''external_reply'', JObj [(''chat'', JObj [(''id'', JNum cid), (''type'', JStr ''channel'')])])]"

definition chat_linked_to :: "int \<Rightarrow> jsval" where
  "chat_linked_to cid = JObj [(''id'', JNum (- 1001)), (''linked_chat_id'', JNum cid)]"

definition reply_to_hidden_forward :: jsval where
  "reply_to_hidden_forward =
     JObj [(''message_id'', JNum 8), (''chat'', group_chat),
           (''reply_to_message'', JObj [(''message_id'', JNum 3), (''forward_date'', JNum 1700000000)])]"

text \<open>
  A value that cannot be converted to a string: the object \<open>{"toString": 1}\<close>. And a reply
  to a channel with a given title.
\<close>

definition unprintable :: jsval where
  "unprintable = JObj [(''toString'', JNum 1)]"

definition reply_to_titled_channel :: "jsval \<Rightarrow> jsval" where
  "reply_to_titled_channel title =
     JObj [(''message_id'', JNum 7), (''chat'', group_chat),
           (''external_reply'',
              JObj [(''chat'', JObj [(''id'', JNum 6), (''type'', JStr ''channel''), (''title'', title)])])]"

text \<open>A worker whose cache holds one entry.\<close>

definition world_with_entry :: "int \<Rightarrow> string \<Rightarrow> jsval \<Rightarrow> int \<Rightarrow> world" where
  "world_with_entry t key data timestamp =
     (initial_world t)\<lparr>chatInfoCache := [key \<mapsto> (data, timestamp)]\<rparr>"


text \<open>
  A remote side that answers the first fetch with the logical error 400, lets the second
  fail on the network, and answers every later fetch with a sent message of id 42.
\<close>

definition flaky_send :: remote where
  "flaky_send = (\<lambda>k. if k = 0 then (5, error_response 400)
                     else if k = 1 then (0, FetchRejected)
                     else (5, ok_response (JObj [(''message_id'', JNum 42)])))"


text \<open>Requests to the webhook and to the health probe, and updates.\<close>

definition webhook_request :: "string \<Rightarrow> jsval option \<Rightarrow> request" where
  "webhook_request contentType parsed =
     \<lparr>req_method = ''POST'', pathname = ''/webhook'', origin = ''https://bot.example'',
      cf_connecting_ip = Some ''203.0.113.7'', x_forwarded_for = None,
      content_type = Some contentType, json_body = parsed\<rparr>"

definition private_message :: "jsval \<Rightarrow> jsval" where
  "private_message text =
     JObj [(''message_id'', JNum 11), (''chat'', JObj [(''id'', JNum 77), (''type'', JStr ''private'')]),
           (''text'', text)]"

definition update_with :: "jsval \<Rightarrow> jsval \<Rightarrow> jsval" where
  "update_with update_id message = JObj [(''update_id'', update_id), (''message'', message)]"

definition health_request :: "string \<Rightarrow> request" where
  "health_request ip =
     \<lparr>req_method = ''GET'', pathname = ''/health'', origin = ''https://bot.example'',
      cf_connecting_ip = Some ip, x_forwarded_for = None, content_type = None, json_body = None\<rparr>"

text \<open>The worker's configuration with the limit lowered to two requests per window.\<close>

definition small_limit :: config where
  "small_limit = CONFIG\<lparr>MAX_REQUESTS_PER_WINDOW := 2\<rparr>"

section \<open>Properties\<close>

declare makeApiRequest.simps [simp del] show_nat.simps [simp del] trim_left.simps [simp del]
  shortest.simps [simp del] strip_zeros.simps [simp del] bit_length.simps [simp del]
  digit_count.simps [simp del]

subsection \<open>String conversion\<close>

lemma printable_simps [simp]:
  "printable JUndef" "printable JNull" "printable (JBool b)" "printable (JNum n)" "printable (JStr str)"
  "printable (JObj kvs) = (map_of kvs ''toString'' = None)"
  by (simp_all add: printable_def)

lemma printable_string: "printable v = (\<exists>str. js_to_string v = Inr str)"
  by (cases "js_to_string v") (simp_all add: printable_def)

lemma interpolates_simps [simp]:
  "interpolates [] = True" "interpolates (v # vs) = (printable v \<and> interpolates vs)"
  by (simp_all add: interpolates_def)

lemma show_number_sample: "show_number (- 1001) = ''-1001''"
  by (simp add: show_number_def show_double_def shortest.simps digit_count.simps nearest_double_def
        Let_def show_nat.simps digit_char_def)

subsection \<open>API client\<close>

lemma retry_schedule_step:
  "rc < n \<Longrightarrow> retry_schedule m p rc n = Fetch m p rc # Sleep (2 ^ rc * 1000) # retry_schedule m p (Suc rc) n"
  by (simp add: retry_schedule_def upt_conv_Cons)

lemma retry_schedule_stop: "retry_schedule m p n n = [Fetch m p n]"
  by (simp add: retry_schedule_def)

lemma makeApiRequest_retry:
  assumes "retryable_failure (attempt_of (snd (remote (fetches s))))" and "rc < MAX_RETRIES cfg"
  shows "makeApiRequest cfg remote m p rc s =
           makeApiRequest cfg remote m p (Suc rc) (sleep (2 ^ rc * 1000) (snd (do_fetch remote m p rc s)))"
  using assms
  by (subst makeApiRequest.simps)
     (simp add: do_fetch_def retryable_failure_def split: attempt.splits)

lemma makeApiRequest_final:
  assumes "\<not> (retryable_failure (attempt_of (snd (remote (fetches s)))) \<and> rc < MAX_RETRIES cfg)"
  shows "makeApiRequest cfg remote m p rc s =
           ((case attempt_of (snd (remote (fetches s))) of Returned r \<Rightarrow> r | LogicalFailure c \<Rightarrow> JNull | Thrown e \<Rightarrow> JNull),
            snd (do_fetch remote m p rc s))"
  using assms
  by (subst makeApiRequest.simps)
     (auto simp: do_fetch_def retryable_failure_def split: attempt.splits)

lemma makeApiRequest_frame:
  "chatInfoCache (snd (makeApiRequest cfg remote m p rc s)) = chatInfoCache s \<and>
   rateLimitTracker (snd (makeApiRequest cfg remote m p rc s)) = rateLimitTracker s"
proof (induction "MAX_RETRIES cfg - rc" arbitrary: rc s)
  case 0
  then show ?case by (simp add: makeApiRequest_final do_fetch_def)
next
  case (Suc k)
  show ?case
  proof (cases "retryable_failure (attempt_of (snd (remote (fetches s)))) \<and> rc < MAX_RETRIES cfg")
    case True
    with Suc(1) [of "Suc rc"] Suc(2) show ?thesis
      by (simp add: makeApiRequest_retry do_fetch_def sleep_def)
  next
    case False
    then show ?thesis by (simp add: makeApiRequest_final do_fetch_def)
  qed
qed

lemma makeApiRequest_attempts:
  assumes "rc \<le> MAX_RETRIES cfg"
  shows "\<exists>n. rc \<le> n \<and> n \<le> MAX_RETRIES cfg \<and>
           (\<forall>i. rc \<le> i \<and> i < n \<longrightarrow> retryable_failure (attempt_of (snd (remote (fetches s + (i - rc)))))) \<and>
           trace (snd (makeApiRequest cfg remote m p rc s)) = trace s @ retry_schedule m p rc n \<and>
           fetches (snd (makeApiRequest cfg remote m p rc s)) = fetches s + (n - rc) + 1 \<and>
           (case attempt_of (snd (remote (fetches s + (n - rc)))) of
              Returned r \<Rightarrow> fst (makeApiRequest cfg remote m p rc s) = r
            | LogicalFailure c \<Rightarrow> fst (makeApiRequest cfg remote m p rc s) = JNull \<and> (isRetryableError c \<longrightarrow> n = MAX_RETRIES cfg)
            | Thrown e \<Rightarrow> fst (makeApiRequest cfg remote m p rc s) = JNull \<and> n = MAX_RETRIES cfg)"
  using assms
proof (induction "MAX_RETRIES cfg - rc" arbitrary: rc s)
  case 0
  then have "rc = MAX_RETRIES cfg" by simp
  then show ?case
    by (intro exI [of _ rc])
       (auto simp: makeApiRequest_final do_fetch_def retry_schedule_stop retryable_failure_def
             split: attempt.splits)
next
  case (Suc k)
  let ?a = "attempt_of (snd (remote (fetches s)))"
  show ?case
  proof (cases "retryable_failure ?a \<and> rc < MAX_RETRIES cfg")
    case False
    with Suc(3) show ?thesis
      by (intro exI [of _ rc])
         (auto simp: makeApiRequest_final do_fetch_def retry_schedule_stop retryable_failure_def
               split: attempt.splits)
  next
    case True
    let ?s2 = "sleep (2 ^ rc * 1000) (snd (do_fetch remote m p rc s))"
    have eq: "makeApiRequest cfg remote m p rc s = makeApiRequest cfg remote m p (Suc rc) ?s2"
      using True by (simp add: makeApiRequest_retry)
    have f2: "fetches ?s2 = Suc (fetches s)"
      "trace ?s2 = trace s @ [Fetch m p rc, Sleep (2 ^ rc * 1000)]"
      by (simp_all add: sleep_def do_fetch_def)
    from Suc(2) True have "k = MAX_RETRIES cfg - Suc rc" "Suc rc \<le> MAX_RETRIES cfg" by simp_all
    from Suc(1) [OF this, of ?s2]
    obtain n where n: "Suc rc \<le> n" "n \<le> MAX_RETRIES cfg"
      "\<forall>i. Suc rc \<le> i \<and> i < n \<longrightarrow>
               retryable_failure (attempt_of (snd (remote (fetches ?s2 + (i - Suc rc)))))"
      "trace (snd (makeApiRequest cfg remote m p (Suc rc) ?s2)) =
             trace ?s2 @ retry_schedule m p (Suc rc) n"
      "fetches (snd (makeApiRequest cfg remote m p (Suc rc) ?s2)) =
             fetches ?s2 + (n - Suc rc) + 1"
      "(case attempt_of (snd (remote (fetches ?s2 + (n - Suc rc)))) of
              Returned r \<Rightarrow> fst (makeApiRequest cfg remote m p (Suc rc) ?s2) = r
            | LogicalFailure c \<Rightarrow> fst (makeApiRequest cfg remote m p (Suc rc) ?s2) = JNull \<and>
                (isRetryableError c \<longrightarrow> n = MAX_RETRIES cfg)
            | Thrown e \<Rightarrow> fst (makeApiRequest cfg remote m p (Suc rc) ?s2) = JNull \<and>
                n = MAX_RETRIES cfg)"
      by blast
    have idx: "\<And>i. Suc rc \<le> i \<Longrightarrow> fetches ?s2 + (i - Suc rc) = fetches s + (i - rc)"
      by (simp add: f2)
    have all: "\<forall>i. rc \<le> i \<and> i < n \<longrightarrow>
        retryable_failure (attempt_of (snd (remote (fetches s + (i - rc)))))"
    proof (intro allI impI)
      fix i assume i: "rc \<le> i \<and> i < n"
      show "retryable_failure (attempt_of (snd (remote (fetches s + (i - rc)))))"
      proof (cases "i = rc")
        case True
        with \<open>retryable_failure ?a \<and> rc < MAX_RETRIES cfg\<close> show ?thesis by simp
      next
        case False
        with i have i': "Suc rc \<le> i \<and> i < n" by simp
        with n(3) have "retryable_failure (attempt_of (snd (remote (fetches ?s2 + (i - Suc rc)))))"
          by blast
        with idx [of i] i' show ?thesis by simp
      qed
    qed
    from n(1) have lt: "rc < n" by simp
    have fin: "(case attempt_of (snd (remote (fetches s + (n - rc)))) of
              Returned r \<Rightarrow> fst (makeApiRequest cfg remote m p rc s) = r
            | LogicalFailure c \<Rightarrow> fst (makeApiRequest cfg remote m p rc s) = JNull \<and>
                (isRetryableError c \<longrightarrow> n = MAX_RETRIES cfg)
            | Thrown e \<Rightarrow> fst (makeApiRequest cfg remote m p rc s) = JNull \<and>
                n = MAX_RETRIES cfg)"
      unfolding eq using n(6) idx [of n] n(1) by simp
    have tr: "trace (snd (makeApiRequest cfg remote m p rc s)) = trace s @ retry_schedule m p rc n"
      using n(4) by (simp add: eq f2 retry_schedule_step [OF lt])
    have fe: "fetches (snd (makeApiRequest cfg remote m p rc s)) = fetches s + (n - rc) + 1"
      using n(5) lt by (simp add: eq f2)
    show ?thesis
      apply (rule exI [of _ n])
      using lt n(2) all tr fe fin
      by simp
  qed
qed







subsection \<open>Chat metadata cache\<close>

lemma api_calls_append: "api_calls m p (xs @ ys) = api_calls m p xs + api_calls m p ys"
  by (simp add: api_calls_def)

lemma api_calls_retries:
  "0 < rc \<Longrightarrow> rc \<le> n \<Longrightarrow> api_calls m p (retry_schedule m' p' rc n) = 0"
  by (induction "n - rc" arbitrary: rc)
     (simp_all add: retry_schedule_stop retry_schedule_step api_calls_def)

lemma api_calls_schedule:
  "api_calls m p (retry_schedule m' p' 0 n) = (if m = m' \<and> p = p' then 1 else 0)"
proof (cases n)
  case 0
  then show ?thesis by (simp add: retry_schedule_stop api_calls_def)
next
  case (Suc k)
  then have "retry_schedule m' p' 0 n = Fetch m' p' 0 # Sleep (2 ^ 0 * 1000) # retry_schedule m' p' (Suc 0) n"
    by (intro retry_schedule_step) simp
  moreover have "api_calls m p (retry_schedule m' p' (Suc 0) n) = 0"
    using Suc by (intro api_calls_retries) simp_all
  ultimately show ?thesis by (auto simp: api_calls_def)
qed

lemma api_calls_makeApiRequest:
  "api_calls m p (trace (snd (makeApiRequest cfg remote m' p' 0 s))) =
     api_calls m p (trace s) + (if m = m' \<and> p = p' then 1 else 0)"
proof -
  from makeApiRequest_attempts [of 0 cfg remote s m' p']
  obtain n where "trace (snd (makeApiRequest cfg remote m' p' 0 s)) = trace s @ retry_schedule m' p' 0 n"
    by auto
  then show ?thesis by (simp add: api_calls_append api_calls_schedule)
qed

lemma getChatInfo_raises:
  "js_to_string chatId = Inl e \<Longrightarrow> getChatInfo cfg remote chatId s = (Inl e, s)"
  by (simp add: getChatInfo_def)

lemma getChatInfo_hit:
  assumes "js_to_string chatId = Inr k"
    and "chatInfoCache s (''chat_'' @ k) = Some (d, ts)" and "now s - ts < CACHE_TTL cfg"
  shows "getChatInfo cfg remote chatId s = (Inr d, s)"
  using assms by (simp add: getChatInfo_def)

lemma getChatInfo_miss:
  assumes "js_to_string chatId = Inr k"
    and "\<forall>d ts. chatInfoCache s (''chat_'' @ k) = Some (d, ts) \<longrightarrow> CACHE_TTL cfg \<le> now s - ts"
  shows "getChatInfo cfg remote chatId s =
    (let r = makeApiRequest cfg remote ''getChat'' (JObj [(''chat_id'', chatId)]) 0
               (s\<lparr>chatInfoCache := (chatInfoCache s)((''chat_'' @ k) := None)\<rparr>)
     in (Inr (fst r),
         if truthy (fst r)
         then (snd r)\<lparr>chatInfoCache := (chatInfoCache s)((''chat_'' @ k) \<mapsto> (fst r, now s))\<rparr>
         else snd r))"
proof -
  have hit: "(case chatInfoCache s (''chat_'' @ k) of
                None \<Rightarrow> None
              | Some (data, timestamp) \<Rightarrow> if now s - timestamp < CACHE_TTL cfg then Some data else None) = None"
    using assms(2) by (auto split: option.splits)
  show ?thesis
    unfolding getChatInfo_def assms(1) sum.case Let_def hit
    by (simp add: makeApiRequest_frame case_prod_beta)
qed

lemma getChatInfo_cases:
  "(\<exists>d ts. chatInfoCache s (''chat_'' @ k) = Some (d, ts) \<and> now s - ts < CACHE_TTL cfg) \<or>
   (\<forall>d ts. chatInfoCache s (''chat_'' @ k) = Some (d, ts) \<longrightarrow> CACHE_TTL cfg \<le> now s - ts)"
  by (cases "chatInfoCache s (''chat_'' @ k)") auto

lemma getChatInfo_miss_calls:
  assumes "js_to_string chatId = Inr k"
    and "\<forall>d ts. chatInfoCache s (''chat_'' @ k) = Some (d, ts) \<longrightarrow> CACHE_TTL cfg \<le> now s - ts"
  shows "api_calls ''getChat'' (JObj [(''chat_id'', chatId)]) (trace (snd (getChatInfo cfg remote chatId s))) =
         api_calls ''getChat'' (JObj [(''chat_id'', chatId)]) (trace s) + 1"
  using api_calls_makeApiRequest [of "''getChat''" "JObj [(''chat_id'', chatId)]" cfg remote "''getChat''" "JObj [(''chat_id'', chatId)]"
      "s\<lparr>chatInfoCache := (chatInfoCache s)((''chat_'' @ k) := None)\<rparr>"]
  by (simp add: getChatInfo_miss [OF assms] Let_def)

lemma getChatInfo_at_most_one:
  "api_calls ''getChat'' (JObj [(''chat_id'', chatId)]) (trace (snd (getChatInfo cfg remote chatId s))) \<le>
   api_calls ''getChat'' (JObj [(''chat_id'', chatId)]) (trace s) + 1"
proof (cases "js_to_string chatId")
  case (Inl e)
  then show ?thesis by (simp add: getChatInfo_raises)
next
  case (Inr k)
  with getChatInfo_cases [of s k cfg] show ?thesis
    by (auto simp: getChatInfo_hit getChatInfo_miss_calls)
qed

text \<open>
  C4 (as amended). With \<open>getChat\<close> calls counted in the trace: when a lookup returns
  truthy metadata, a second lookup of the same chat made less than the TTL after the first
  brings the count to at most one more than before the first; a lookup that finds an entry
  stored at least the TTL ago makes exactly one call; and a lookup without an unexpired
  entry whose request returns null returns null and leaves the cache without an entry for
  the chat. The entry of a chat is the one under the key made of its id, \<open>idString\<close> being
  the id as a string.
\<close>

theorem getChatInfo_fetches:
  "((\<exists>info. fst (getChatInfo cfg remote chatId s) = Inr info \<and> truthy info) \<and> t - now s < CACHE_TTL cfg \<longrightarrow>
      api_calls ''getChat'' (JObj [(''chat_id'', chatId)])
        (trace (snd (getChatInfo cfg remote chatId ((snd (getChatInfo cfg remote chatId s))\<lparr>now := t\<rparr>))))
      \<le> api_calls ''getChat'' (JObj [(''chat_id'', chatId)]) (trace s) + 1) \<and>
   (js_to_string chatId = Inr idString \<and>
    (\<exists>d ts. chatInfoCache s (''chat_'' @ idString) = Some (d, ts) \<and> CACHE_TTL cfg \<le> now s - ts) \<longrightarrow>
      api_calls ''getChat'' (JObj [(''chat_id'', chatId)]) (trace (snd (getChatInfo cfg remote chatId s)))
      = api_calls ''getChat'' (JObj [(''chat_id'', chatId)]) (trace s) + 1) \<and>
   (js_to_string chatId = Inr idString \<and>
    (\<forall>d ts. chatInfoCache s (''chat_'' @ idString) = Some (d, ts) \<longrightarrow> CACHE_TTL cfg \<le> now s - ts) \<and>
    fst (makeApiRequest cfg remote ''getChat'' (JObj [(''chat_id'', chatId)]) 0
           (s\<lparr>chatInfoCache := (chatInfoCache s)((''chat_'' @ idString) := None)\<rparr>)) = JNull \<longrightarrow>
      fst (getChatInfo cfg remote chatId s) = Inr JNull \<and>
      chatInfoCache (snd (getChatInfo cfg remote chatId s)) =
        (chatInfoCache s)((''chat_'' @ idString) := None))"
proof (intro conjI impI)
  let ?p = "JObj [(''chat_id'', chatId)]"
  let ?s1 = "snd (getChatInfo cfg remote chatId s)"
  {
    assume a: "(\<exists>info. fst (getChatInfo cfg remote chatId s) = Inr info \<and> truthy info) \<and> t - now s < CACHE_TTL cfg"
    then obtain k where k: "js_to_string chatId = Inr k"
      by (cases "js_to_string chatId") (auto simp: getChatInfo_raises)
    let ?key = "''chat_'' @ k"
    show "api_calls ''getChat'' ?p (trace (snd (getChatInfo cfg remote chatId (?s1\<lparr>now := t\<rparr>))))
            \<le> api_calls ''getChat'' ?p (trace s) + 1"
    proof (rule disjE [OF getChatInfo_cases [of s k cfg]])
      assume "\<exists>d ts. chatInfoCache s ?key = Some (d, ts) \<and> now s - ts < CACHE_TTL cfg"
      then have "?s1 = s" using k by (auto simp: getChatInfo_hit)
      with getChatInfo_at_most_one [of chatId cfg remote "s\<lparr>now := t\<rparr>"] show ?thesis by simp
    next
      assume miss: "\<forall>d ts. chatInfoCache s ?key = Some (d, ts) \<longrightarrow> CACHE_TTL cfg \<le> now s - ts"
      let ?r = "makeApiRequest cfg remote ''getChat'' ?p 0 (s\<lparr>chatInfoCache := (chatInfoCache s)(?key := None)\<rparr>)"
      from a have tr: "truthy (fst ?r)" by (auto simp: getChatInfo_miss [OF k miss] Let_def)
      then have s1: "?s1 = (snd ?r)\<lparr>chatInfoCache := (chatInfoCache s)(?key \<mapsto> (fst ?r, now s))\<rparr>"
        by (simp add: getChatInfo_miss [OF k miss] Let_def)
      have "getChatInfo cfg remote chatId (?s1\<lparr>now := t\<rparr>) = (Inr (fst ?r), ?s1\<lparr>now := t\<rparr>)"
        using a by (intro getChatInfo_hit [OF k, where ts = "now s"]) (simp_all add: s1)
      then show ?thesis
        using getChatInfo_miss_calls [OF k miss, of remote] by simp
    qed
  }
  {
    assume b: "js_to_string chatId = Inr idString \<and>
      (\<exists>d ts. chatInfoCache s (''chat_'' @ idString) = Some (d, ts) \<and> CACHE_TTL cfg \<le> now s - ts)"
    then have "\<forall>d ts. chatInfoCache s (''chat_'' @ idString) = Some (d, ts) \<longrightarrow> CACHE_TTL cfg \<le> now s - ts"
      by auto
    with b show "api_calls ''getChat'' ?p (trace ?s1) = api_calls ''getChat'' ?p (trace s) + 1"
      by (intro getChatInfo_miss_calls) simp_all
  }
  {
    assume b: "js_to_string chatId = Inr idString \<and>
       (\<forall>d ts. chatInfoCache s (''chat_'' @ idString) = Some (d, ts) \<longrightarrow> CACHE_TTL cfg \<le> now s - ts) \<and>
       fst (makeApiRequest cfg remote ''getChat'' ?p 0
              (s\<lparr>chatInfoCache := (chatInfoCache s)((''chat_'' @ idString) := None)\<rparr>)) = JNull"
    then have k: "js_to_string chatId = Inr idString"
      and miss: "\<forall>d ts. chatInfoCache s (''chat_'' @ idString) = Some (d, ts) \<longrightarrow> CACHE_TTL cfg \<le> now s - ts"
      by simp_all
    from b show "fst (getChatInfo cfg remote chatId s) = Inr JNull"
      by (simp add: getChatInfo_miss [OF k miss] Let_def)
    from b show "chatInfoCache ?s1 = (chatInfoCache s)((''chat_'' @ idString) := None)"
      by (simp add: getChatInfo_miss [OF k miss] Let_def makeApiRequest_frame)
  }
qed

lemmas cache_eval =
  getChatInfo_def makeApiRequest.simps do_fetch_def sleep_def initial_world_def world_with_entry_def
  always_def ok_response_def error_response_def chat_linked_to_def CONFIG_def isRetryableError_def
  api_calls_def Let_def show_number_sample

theorem getChatInfo_fetches_witness:
  "api_calls ''getChat'' (JObj [(''chat_id'', JNum (- 1001))])
     (trace (snd (getChatInfo CONFIG (always 0 (ok_response (chat_linked_to 5))) (JNum (- 1001))
        ((snd (getChatInfo CONFIG (always 0 (ok_response (chat_linked_to 5))) (JNum (- 1001)) (initial_world 0)))
           \<lparr>now := 299999\<rparr>)))) = 1 \<and>
   api_calls ''getChat'' (JObj [(''chat_id'', JNum (- 1001))])
     (trace (snd (getChatInfo CONFIG (always 0 (ok_response (chat_linked_to 5))) (JNum (- 1001))
        (world_with_entry 300000 ''chat_-1001'' (chat_linked_to 6) 0)))) = 1 \<and>
   fst (getChatInfo CONFIG (always 0 (error_response 400)) (JNum (- 1001)) (initial_world 0)) = Inr JNull \<and>
   chatInfoCache (snd (getChatInfo CONFIG (always 0 (error_response 400)) (JNum (- 1001)) (initial_world 0)))
     ''chat_-1001'' = None"
  using getChatInfo_fetches [where cfg = CONFIG and remote = "always 0 (ok_response (chat_linked_to 5))"
      and chatId = "JNum (- 1001)" and s = "initial_world 0" and t = 299999 and idString = "''-1001''"]
    getChatInfo_fetches [where cfg = CONFIG and remote = "always 0 (ok_response (chat_linked_to 5))"
      and chatId = "JNum (- 1001)" and s = "world_with_entry 300000 ''chat_-1001'' (chat_linked_to 6) 0" and t = 0
      and idString = "''-1001''"]
    getChatInfo_fetches [where cfg = CONFIG and remote = "always 0 (error_response 400)"
      and chatId = "JNum (- 1001)" and s = "initial_world 0" and t = 0 and idString = "''-1001''"]
  by (simp add: cache_eval)

text \<open>
  The claim as stated fails when the first fetch fails: nothing is cached, and a second
  lookup at the same time fetches again.
\<close>

theorem getChatInfo_failed_fetch_counterexample:
  "now (snd (getChatInfo CONFIG (always 0 (error_response 400)) (JNum (- 1001)) (initial_world 0))) = 0 \<and>
   api_calls ''getChat'' (JObj [(''chat_id'', JNum (- 1001))])
     (trace (snd (getChatInfo CONFIG (always 0 (error_response 400)) (JNum (- 1001))
        (snd (getChatInfo CONFIG (always 0 (error_response 400)) (JNum (- 1001)) (initial_world 0)))))) = 2"
  by (simp add: cache_eval)

subsection \<open>Classifier\<close>

lemmas classifier_eval =
  detectCrossChannelReply_def getChatInfo_def initial_world_def always_def ok_response_def
  chat_linked_to_def reply_to_channel_def group_chat_def
  makeApiRequest.simps do_fetch_def detect_cases_def channel_result_def channel_info_of_def
  isLinkedChannel_def js_and_def js_or_def Let_def show_number_sample

lemma channel_result_invariant:
  "channel_result rtype m i c = Inr r \<Longrightarrow> isCrossChannel r \<and> replyType r = rtype"
  by (auto simp: channel_result_def split: if_splits)

lemma detect_cases_invariant:
  assumes "detect_cases m i = Inr r"
  shows "(isExternal r \<longrightarrow> isCrossChannel r) \<and>
         (replyType r = ''none'' \<longrightarrow> \<not> isCrossChannel r \<and> \<not> isExternal r)"
  using assms
  by (auto simp: detect_cases_def no_result_def Let_def
        dest!: channel_result_invariant split: if_splits sum.splits)

lemma detect_cases_raises:
  assumes "detect_cases m i = Inl e"
  shows "\<not> printable (jsprop m ''message_id'') \<or>
         \<not> printable (jsprop (jsprop (jsprop m ''external_reply'') ''chat'') ''title'') \<or>
         \<not> printable (jsprop (jsprop (jsprop m ''reply_to_message'') ''forward_from_chat'') ''title'') \<or>
         \<not> printable (jsprop (jsprop (jsprop m ''reply_to_message'') ''sender_chat'') ''title'') \<or>
         \<not> printable (jsprop (jsprop m ''reply_to_message'') ''forward_signature'')"
  using assms
  by (auto simp: detect_cases_def channel_result_def Let_def printable_def
        split: if_splits sum.splits)

lemma jsprop_defined_truthy: "jsprop v k \<noteq> JUndef \<Longrightarrow> truthy v"
  by (cases v) simp_all

lemma truthy_isLinkedChannel:
  "truthy (isLinkedChannel g c) =
     (truthy (jsprop g ''linked_chat_id'') \<and> strict_eq (jsprop g ''linked_chat_id'') c)"
  by (simp add: isLinkedChannel_def js_and_def)

lemma detect_cases_unresolvable:
  assumes "detect_cases m i = Inr r"
    and "replyType r = ''hidden_forward'' \<or> replyType r = ''channel_signature''"
  shows "isCrossChannel r \<and> isExternal r \<and> detect_cases m j = Inr r"
  using assms
  by (auto simp: detect_cases_def no_result_def Let_def
        dest!: channel_result_invariant split: if_splits sum.splits)

lemma detectCrossChannelReply_returned:
  assumes "detectCrossChannelReply cfg remote message s = (Inr r, s')"
  shows "\<not> nullish message \<and> \<not> nullish (jsprop message ''chat'') \<and>
         (\<exists>info. getChatInfo cfg remote (jsprop (jsprop message ''chat'') ''id'') s = (Inr info, s') \<and>
                 detect_cases message info = Inr r)"
  using assms
  by (auto simp: detectCrossChannelReply_def split: if_splits prod.splits sum.splits)

lemma getChatInfo_returned:
  "fst (getChatInfo cfg remote chatId s) = Inr info \<Longrightarrow> printable chatId"
  by (cases "js_to_string chatId") (simp_all add: getChatInfo_raises printable_def)

lemma getChatInfo_returns:
  "printable chatId \<Longrightarrow> \<exists>info. fst (getChatInfo cfg remote chatId s) = Inr info"
  by (cases "js_to_string chatId")
     (auto simp: getChatInfo_def printable_def Let_def case_prod_beta split: option.splits)

text \<open>
  C1 (as amended). For a message with a chat that carries an external-reply reference to a
  chat of type "channel", when the values the code logs on the way can be converted to
  strings (the id of the message's chat, for which the lookup returns; the \<open>message_id\<close>;
  the title of the channel), the classifier returns a result with \<open>isCrossChannel\<close> set,
  and \<open>isExternal\<close> is false exactly when the metadata the lookup returned is truthy, its
  \<open>linked_chat_id\<close> is truthy, and that id is strictly equal to the id of the referenced
  channel. The world after the call is the world after the lookup.
\<close>

theorem external_reply_classification:
  assumes "\<not> nullish message" and "\<not> nullish (jsprop message ''chat'')"
    and "jsprop (jsprop (jsprop message ''external_reply'') ''chat'') ''type'' = JStr ''channel''"
    and "getChatInfo cfg remote (jsprop (jsprop message ''chat'') ''id'') s = (Inr info, s')"
    and "printable (jsprop message ''message_id'')"
    and "printable (jsprop (jsprop (jsprop message ''external_reply'') ''chat'') ''title'')"
  shows "\<exists>r. detectCrossChannelReply cfg remote message s = (Inr r, s') \<and>
             isCrossChannel r \<and> replyType r = ''external_reply'' \<and>
             (\<not> isExternal r) =
               (truthy info \<and> truthy (jsprop info ''linked_chat_id'') \<and>
                strict_eq (jsprop info ''linked_chat_id'')
                  (jsprop (jsprop (jsprop message ''external_reply'') ''chat'') ''id''))"
proof -
  let ?chat = "jsprop (jsprop message ''external_reply'') ''chat''"
  have c: "truthy ?chat"
    using assms(3) by (intro jsprop_defined_truthy [of _ "''type''"]) simp
  then have e: "truthy (jsprop message ''external_reply'')"
    by (intro jsprop_defined_truthy [of _ "''chat''"]) auto
  have "detect_cases message info = channel_result ''external_reply'' message info ?chat"
    using c e assms(3) by (simp add: detect_cases_def js_and_def)
  then show ?thesis
    using assms(1,2,4,5,6)
    by (simp add: detectCrossChannelReply_def channel_result_def js_and_def truthy_isLinkedChannel)
qed

theorem external_reply_classification_witness:
  "\<exists>r. detectCrossChannelReply CONFIG (always 0 (ok_response (chat_linked_to 5))) (reply_to_channel 5) (initial_world 0)
          = (Inr r, snd (getChatInfo CONFIG (always 0 (ok_response (chat_linked_to 5))) (JNum (- 1001)) (initial_world 0))) \<and>
        isCrossChannel r \<and> replyType r = ''external_reply'' \<and> \<not> isExternal r"
  using external_reply_classification [where cfg = CONFIG and remote = "always 0 (ok_response (chat_linked_to 5))"
      and message = "reply_to_channel 5" and s = "initial_world 0"
      and info = "chat_linked_to 5"
      and s' = "snd (getChatInfo CONFIG (always 0 (ok_response (chat_linked_to 5))) (JNum (- 1001)) (initial_world 0))"]
  by (simp add: reply_to_channel_def group_chat_def)
     (simp add: getChatInfo_def initial_world_def always_def ok_response_def chat_linked_to_def
        makeApiRequest.simps do_fetch_def Let_def show_number_sample)

text \<open>
  The claim as stated fails in two ways. A reply to a channel whose title is an object
  with a member named \<open>toString\<close> (any client of the webhook can send such an update) gets
  no classification: the log line of the first case raises, after the lookup has been
  made. And where the linked-channel id is present and falsy (the chat's \<open>linked_chat_id\<close>
  is 0, the referenced channel's id is 0, the metadata is available) the reply is
  classified external.
\<close>

theorem external_reply_unreturned_counterexample:
  "jsprop (jsprop (jsprop (reply_to_titled_channel unprintable) ''external_reply'') ''chat'') ''type'' = JStr ''channel'' \<and>
   fst (detectCrossChannelReply CONFIG (always 0 (ok_response (chat_linked_to 5)))
          (reply_to_titled_channel unprintable) (initial_world 0)) = Inl TypeError \<and>
   trace (snd (detectCrossChannelReply CONFIG (always 0 (ok_response (chat_linked_to 5)))
          (reply_to_titled_channel unprintable) (initial_world 0)))
     = [Fetch ''getChat'' (JObj [(''chat_id'', JNum (- 1001))]) 0] \<and>
   fst (getChatInfo CONFIG (always 0 (ok_response (chat_linked_to 0)))
          (jsprop (jsprop (reply_to_channel 0) ''chat'') ''id'') (initial_world 0)) = Inr (chat_linked_to 0) \<and>
   jsprop (chat_linked_to 0) ''linked_chat_id'' = JNum 0 \<and>
   jsprop (jsprop (jsprop (reply_to_channel 0) ''external_reply'') ''chat'') ''id'' = JNum 0 \<and>
   fst (detectCrossChannelReply CONFIG (always 0 (ok_response (chat_linked_to 0))) (reply_to_channel 0) (initial_world 0))
     = Inr \<lparr>isCrossChannel = True, isExternal = True,
            channelInfo = JObj [(''id'', JNum 0), (''title'', JStr ''Unknown Channel''), (''username'', JNull)],
            replyType = ''external_reply''\<rparr>"
  by (simp add: classifier_eval reply_to_titled_channel_def unprintable_def)

text \<open>
  C2 (as amended). A message classified as a hidden forward or by a forward signature is
  cross-channel and external; its classification is the same whatever the configuration,
  the remote side and the cache; and the world after the call is the world after the
  metadata lookup of the message's chat, which is made all the same.
\<close>

theorem unresolvable_forward_classification:
  assumes "detectCrossChannelReply cfg remote message s = (Inr r, s')"
    and "replyType r = ''hidden_forward'' \<or> replyType r = ''channel_signature''"
  shows "isCrossChannel r \<and> isExternal r \<and>
         fst (detectCrossChannelReply cfg' remote' message t) = Inr r \<and>
         s' = snd (getChatInfo cfg remote (jsprop (jsprop message ''chat'') ''id'') s)"
proof -
  from detectCrossChannelReply_returned [OF assms(1)]
  obtain info where ok: "\<not> (nullish message \<or> nullish (jsprop message ''chat''))"
    and g: "getChatInfo cfg remote (jsprop (jsprop message ''chat'') ''id'') s = (Inr info, s')"
    and r: "detect_cases message info = Inr r"
    by auto
  from detect_cases_unresolvable [OF r assms(2)]
  have x: "isCrossChannel r" "isExternal r" and same: "\<And>j. detect_cases message j = Inr r"
    by simp_all
  from g have "printable (jsprop (jsprop message ''chat'') ''id'')"
    by (intro getChatInfo_returned [of cfg remote _ s info]) simp
  from getChatInfo_returns [OF this, of cfg' remote' t]
  obtain info' t' where g': "getChatInfo cfg' remote' (jsprop (jsprop message ''chat'') ''id'') t = (Inr info', t')"
    by (cases "getChatInfo cfg' remote' (jsprop (jsprop message ''chat'') ''id'') t") auto
  have "fst (detectCrossChannelReply cfg' remote' message t) = Inr r"
    using ok g' same by (simp add: detectCrossChannelReply_def)
  with x g show ?thesis by simp
qed

theorem unresolvable_forward_classification_witness:
  "fst (detectCrossChannelReply CONFIG (always 0 (ok_response (chat_linked_to 5))) reply_to_hidden_forward (initial_world 0))
     = fst (detectCrossChannelReply CONFIG (always 3 (ok_response (chat_linked_to 6))) reply_to_hidden_forward (initial_world 9)) \<and>
   fst (detectCrossChannelReply CONFIG (always 3 (ok_response (chat_linked_to 6))) reply_to_hidden_forward (initial_world 9))
     = Inr \<lparr>isCrossChannel = True, isExternal = True,
            channelInfo = JObj [(''id'', JNull), (''title'', JStr ''Hidden Source''), (''username'', JNull)],
            replyType = ''hidden_forward''\<rparr>"
  using unresolvable_forward_classification [where cfg = CONFIG and remote = "always 3 (ok_response (chat_linked_to 6))"
      and message = reply_to_hidden_forward and s = "initial_world 9"
      and r = "\<lparr>isCrossChannel = True, isExternal = True,
            channelInfo = JObj [(''id'', JNull), (''title'', JStr ''Hidden Source''), (''username'', JNull)],
            replyType = ''hidden_forward''\<rparr>"
      and s' = "snd (detectCrossChannelReply CONFIG (always 3 (ok_response (chat_linked_to 6))) reply_to_hidden_forward (initial_world 9))"
      and cfg' = CONFIG and remote' = "always 0 (ok_response (chat_linked_to 5))" and t = "initial_world 0"]
  by (simp add: classifier_eval reply_to_hidden_forward_def prod_eq_iff)

text \<open>
  The claim as stated fails: classifying a reply to a hidden forward in a fresh worker
  fetches the chat's metadata from the Bot API and stores it in the cache.
\<close>

theorem hidden_forward_lookup_counterexample:
  "fst (detectCrossChannelReply CONFIG (always 0 (ok_response (chat_linked_to 5))) reply_to_hidden_forward (initial_world 0))
     = Inr \<lparr>isCrossChannel = True, isExternal = True,
            channelInfo = JObj [(''id'', JNull), (''title'', JStr ''Hidden Source''), (''username'', JNull)],
            replyType = ''hidden_forward''\<rparr> \<and>
   trace (snd (detectCrossChannelReply CONFIG (always 0 (ok_response (chat_linked_to 5))) reply_to_hidden_forward (initial_world 0)))
     = [Fetch ''getChat'' (JObj [(''chat_id'', JNum (- 1001))]) 0] \<and>
   chatInfoCache (snd (detectCrossChannelReply CONFIG (always 0 (ok_response (chat_linked_to 5))) reply_to_hidden_forward (initial_world 0)))
     ''chat_-1001'' = Some (chat_linked_to 5, 0)"
  by (simp add: classifier_eval reply_to_hidden_forward_def)

text \<open>
  C8. Whatever the classifier returns satisfies: external implies cross-channel, and a
  result of reply type \<open>none\<close> has both flags false. When the classifier returns no result
  it has raised, and then the message or its chat is null or undefined, or one of the
  values the code converts to a string on the way cannot be converted: the id of the
  chat, the \<open>message_id\<close>, the title of the referenced channel, or the signature. So the
  classifier returns a result, and one that satisfies the invariant, for every message
  with a chat in which these values can be converted.
\<close>

theorem classification_invariant:
  "case fst (detectCrossChannelReply cfg remote message s) of
     Inl e \<Rightarrow> nullish message \<or> nullish (jsprop message ''chat'') \<or>
             \<not> printable (jsprop (jsprop message ''chat'') ''id'') \<or>
             \<not> printable (jsprop message ''message_id'') \<or>
             \<not> printable (jsprop (jsprop (jsprop message ''external_reply'') ''chat'') ''title'') \<or>
             \<not> printable (jsprop (jsprop (jsprop message ''reply_to_message'') ''forward_from_chat'') ''title'') \<or>
             \<not> printable (jsprop (jsprop (jsprop message ''reply_to_message'') ''sender_chat'') ''title'') \<or>
             \<not> printable (jsprop (jsprop message ''reply_to_message'') ''forward_signature'')
   | Inr r \<Rightarrow> (isExternal r \<longrightarrow> isCrossChannel r) \<and>
             (replyType r = ''none'' \<longrightarrow> \<not> isCrossChannel r \<and> \<not> isExternal r)"
proof (cases "nullish message \<or> nullish (jsprop message ''chat'')")
  case True
  then have "fst (detectCrossChannelReply cfg remote message s) = Inl TypeError"
    by (simp add: detectCrossChannelReply_def)
  with True show ?thesis by auto
next
  case False
  let ?g = "getChatInfo cfg remote (jsprop (jsprop message ''chat'') ''id'') s"
  show ?thesis
  proof (cases "fst ?g")
    case (Inl e)
    then have "\<not> printable (jsprop (jsprop message ''chat'') ''id'')"
      using getChatInfo_returns [of "jsprop (jsprop message ''chat'') ''id''" cfg remote s] by auto
    moreover from Inl False have "fst (detectCrossChannelReply cfg remote message s) = Inl e"
      by (cases ?g) (simp add: detectCrossChannelReply_def)
    ultimately show ?thesis by simp
  next
    case (Inr info)
    with False have d: "fst (detectCrossChannelReply cfg remote message s) = detect_cases message info"
      by (cases ?g) (simp add: detectCrossChannelReply_def)
    show ?thesis
    proof (cases "detect_cases message info")
      case (Inl e)
      from detect_cases_raises [OF this] show ?thesis
        unfolding d Inl by auto
    next
      case r: (Inr r)
      from detect_cases_invariant [OF this] show ?thesis
        unfolding d r by simp
    qed
  qed
qed

theorem classification_invariant_witness:
  "fst (detectCrossChannelReply CONFIG (always 0 (ok_response (chat_linked_to 5))) (reply_to_channel 6) (initial_world 0))
     = Inr \<lparr>isCrossChannel = True, isExternal = True,
          channelInfo = JObj [(''id'', JNum 6), (''title'', JStr ''Unknown Channel''), (''username'', JNull)],
          replyType = ''external_reply''\<rparr> \<and>
   fst (detectCrossChannelReply CONFIG (always 0 (ok_response (chat_linked_to 5)))
          (reply_to_titled_channel unprintable) (initial_world 0)) = Inl TypeError \<and>
   \<not> printable (jsprop (jsprop (jsprop (reply_to_titled_channel unprintable) ''external_reply'') ''chat'') ''title'')"
  using classification_invariant [where cfg = CONFIG and remote = "always 0 (ok_response (chat_linked_to 5))"
      and message = "reply_to_channel 6" and s = "initial_world 0"]
    classification_invariant [where cfg = CONFIG and remote = "always 0 (ok_response (chat_linked_to 5))"
      and message = "reply_to_titled_channel unprintable" and s = "initial_world 0"]
  by (simp add: classifier_eval reply_to_titled_channel_def unprintable_def)

subsection \<open>Moderation action\<close>

lemma deleteWarningMessage_printable:
  assumes "printable messageId" and "printable chatId"
  shows "deleteWarningMessage cfg remote chatId messageId s =
           (Inr (), snd (makeApiRequest cfg remote ''deleteMessage''
                           (JObj [(''chat_id'', chatId), (''message_id'', messageId)]) 0 s))"
  using assms by (simp add: deleteWarningMessage_def)

lemma scheduleMessageDeletion_printable:
  assumes "printable messageId" and "printable chatId"
  shows "scheduleMessageDeletion cfg remote chatId messageId delayMs s =
           (Inr (), snd (makeApiRequest cfg remote ''deleteMessage''
                           (JObj [(''chat_id'', chatId), (''message_id'', messageId)]) 0 (sleep delayMs s)))"
  using assms by (simp add: scheduleMessageDeletion_def deleteWarningMessage_printable)

lemma sendWarningMessage_printable:
  assumes "printable chatId"
  shows "sendWarningMessage cfg remote chatId isEdited s =
     (Inr (),
      if truthy (fst (makeApiRequest cfg remote ''sendMessage''
                        (JObj [(''chat_id'', chatId), (''text'', JStr (WARNING_MESSAGE_TEXT cfg)),
                               (''parse_mode'', JStr ''HTML'')]) 0 s)) \<and>
         truthy (jsprop (fst (makeApiRequest cfg remote ''sendMessage''
                        (JObj [(''chat_id'', chatId), (''text'', JStr (WARNING_MESSAGE_TEXT cfg)),
                               (''parse_mode'', JStr ''HTML'')]) 0 s)) ''message_id'') \<and>
         printable (jsprop (fst (makeApiRequest cfg remote ''sendMessage''
                        (JObj [(''chat_id'', chatId), (''text'', JStr (WARNING_MESSAGE_TEXT cfg)),
                               (''parse_mode'', JStr ''HTML'')]) 0 s)) ''message_id'')
      then (snd (makeApiRequest cfg remote ''sendMessage''
                        (JObj [(''chat_id'', chatId), (''text'', JStr (WARNING_MESSAGE_TEXT cfg)),
                               (''parse_mode'', JStr ''HTML'')]) 0 s))
             \<lparr>trace := trace (snd (makeApiRequest cfg remote ''sendMessage''
                        (JObj [(''chat_id'', chatId), (''text'', JStr (WARNING_MESSAGE_TEXT cfg)),
                               (''parse_mode'', JStr ''HTML'')]) 0 s)) @
                [WaitUntil (ScheduleMessageDeletion chatId
                   (jsprop (fst (makeApiRequest cfg remote ''sendMessage''
                        (JObj [(''chat_id'', chatId), (''text'', JStr (WARNING_MESSAGE_TEXT cfg)),
                               (''parse_mode'', JStr ''HTML'')]) 0 s)) ''message_id'')
                   (WARNING_AUTO_DELETE_DELAY cfg))]\<rparr>
      else snd (makeApiRequest cfg remote ''sendMessage''
                        (JObj [(''chat_id'', chatId), (''text'', JStr (WARNING_MESSAGE_TEXT cfg)),
                               (''parse_mode'', JStr ''HTML'')]) 0 s))"
  using assms
  by (simp add: sendWarningMessage_def sendWarningMessage_try_def js_and_def case_prod_beta Let_def)

lemma deleteCrossChannelReply_printable:
  assumes "\<not> nullish message" and "\<not> nullish (jsprop message ''chat'')"
    and "printable (jsprop message ''message_id'')" and "printable (jsprop (jsprop message ''chat'') ''id'')"
  shows "deleteCrossChannelReply cfg remote message isEdited s =
           sendWarningMessage cfg remote (jsprop (jsprop message ''chat'') ''id'') isEdited
             (snd (makeApiRequest cfg remote ''deleteMessage''
                     (JObj [(''chat_id'', jsprop (jsprop message ''chat'') ''id''),
                            (''message_id'', jsprop message ''message_id'')]) 0 s))"
  using assms
  by (simp add: deleteCrossChannelReply_def deleteCrossChannelReply_try_def Let_def case_prod_beta
        sendWarningMessage_printable)

lemma deleteCrossChannelReply_raises:
  assumes "\<not> nullish message" and "\<not> nullish (jsprop message ''chat'')"
    and "\<not> printable (jsprop message ''message_id'')"
  shows "deleteCrossChannelReply cfg remote message isEdited s = (Inl TypeError, s)"
  using assms
  by (simp add: deleteCrossChannelReply_def deleteCrossChannelReply_try_def Let_def)

text \<open>
  C7. For a message with a chat whose \<open>message_id\<close> and chat id can be converted to
  strings (\<open>handleMessage\<close> has interpolated both before it calls the classifier),
  \<open>deleteCrossChannelReply\<close> returns normally, and what it does is, in this order: the
  \<open>deleteMessage\<close> call for the message (with its retries), then, whatever that call
  returned, the \<open>sendMessage\<close> call with the fixed warning text to the same chat (with its
  retries), then the hand-over to \<open>ctx.waitUntil\<close> of the deletion of the warning, exactly
  when the send returned a truthy result with a truthy \<open>message_id\<close> (one that the log line
  before the hand-over can convert to a string). The task handed over, whenever the
  runtime runs it (in a world \<open>w\<close>, against a remote side \<open>later\<close>), returns normally, and
  what it does is: wait for the fixed delay, then the \<open>deleteMessage\<close> call for the warning
  in the same chat (with its retries).
\<close>

theorem moderation_sequence:
  assumes "\<not> nullish message" and "\<not> nullish (jsprop message ''chat'')"
    and "printable (jsprop message ''message_id'')" and "printable (jsprop (jsprop message ''chat'') ''id'')"
  shows "\<exists>n k j sendResult.
           n \<le> MAX_RETRIES cfg \<and> k \<le> MAX_RETRIES cfg \<and> j \<le> MAX_RETRIES cfg \<and>
           fst (deleteCrossChannelReply cfg remote message isEdited s) = Inr () \<and>
           sendResult =
             fst (makeApiRequest cfg remote ''sendMessage''
                    (JObj [(''chat_id'', jsprop (jsprop message ''chat'') ''id''),
                           (''text'', JStr (WARNING_MESSAGE_TEXT cfg)),
                           (''parse_mode'', JStr ''HTML'')]) 0
                    (snd (makeApiRequest cfg remote ''deleteMessage''
                            (JObj [(''chat_id'', jsprop (jsprop message ''chat'') ''id''),
                                   (''message_id'', jsprop message ''message_id'')]) 0 s))) \<and>
           trace (snd (deleteCrossChannelReply cfg remote message isEdited s)) =
             trace s
             @ retry_schedule ''deleteMessage''
                 (JObj [(''chat_id'', jsprop (jsprop message ''chat'') ''id''),
                        (''message_id'', jsprop message ''message_id'')]) 0 n
             @ retry_schedule ''sendMessage''
                 (JObj [(''chat_id'', jsprop (jsprop message ''chat'') ''id''),
                        (''text'', JStr (WARNING_MESSAGE_TEXT cfg)),
                        (''parse_mode'', JStr ''HTML'')]) 0 k
             @ (if truthy sendResult \<and> truthy (jsprop sendResult ''message_id'') \<and>
                   printable (jsprop sendResult ''message_id'')
                then [WaitUntil (ScheduleMessageDeletion (jsprop (jsprop message ''chat'') ''id'')
                        (jsprop sendResult ''message_id'') (WARNING_AUTO_DELETE_DELAY cfg))]
                else []) \<and>
           (printable (jsprop sendResult ''message_id'') \<longrightarrow>
              fst (run_task cfg later
                     (ScheduleMessageDeletion (jsprop (jsprop message ''chat'') ''id'')
                        (jsprop sendResult ''message_id'') (WARNING_AUTO_DELETE_DELAY cfg)) w) = Inr () \<and>
              trace (snd (run_task cfg later
                     (ScheduleMessageDeletion (jsprop (jsprop message ''chat'') ''id'')
                        (jsprop sendResult ''message_id'') (WARNING_AUTO_DELETE_DELAY cfg)) w)) =
                trace w
                @ [Sleep (WARNING_AUTO_DELETE_DELAY cfg)]
                @ retry_schedule ''deleteMessage''
                    (JObj [(''chat_id'', jsprop (jsprop message ''chat'') ''id''),
                           (''message_id'', jsprop sendResult ''message_id'')]) 0 j)"
proof -
  let ?chatId = "jsprop (jsprop message ''chat'') ''id''"
  let ?dp = "JObj [(''chat_id'', ?chatId), (''message_id'', jsprop message ''message_id'')]"
  let ?sp = "JObj [(''chat_id'', ?chatId), (''text'', JStr (WARNING_MESSAGE_TEXT cfg)), (''parse_mode'', JStr ''HTML'')]"
  let ?d = "makeApiRequest cfg remote ''deleteMessage'' ?dp 0 s"
  let ?w = "makeApiRequest cfg remote ''sendMessage'' ?sp 0 (snd ?d)"
  let ?mid = "jsprop (fst ?w) ''message_id''"
  let ?wp = "JObj [(''chat_id'', ?chatId), (''message_id'', ?mid)]"
  let ?delay = "WARNING_AUTO_DELETE_DELAY cfg"
  from makeApiRequest_attempts [of 0 cfg remote s "''deleteMessage''" ?dp]
  obtain n where n: "n \<le> MAX_RETRIES cfg"
    "trace (snd ?d) = trace s @ retry_schedule ''deleteMessage'' ?dp 0 n"
    by auto
  from makeApiRequest_attempts [of 0 cfg remote "snd ?d" "''sendMessage''" ?sp]
  obtain k where k: "k \<le> MAX_RETRIES cfg"
    "trace (snd ?w) = trace (snd ?d) @ retry_schedule ''sendMessage'' ?sp 0 k"
    by auto
  from makeApiRequest_attempts [of 0 cfg later "sleep ?delay w" "''deleteMessage''" ?wp]
  obtain j where j: "j \<le> MAX_RETRIES cfg"
    "trace (snd (makeApiRequest cfg later ''deleteMessage'' ?wp 0 (sleep ?delay w))) =
       trace (sleep ?delay w) @ retry_schedule ''deleteMessage'' ?wp 0 j"
    by auto
  have del: "deleteCrossChannelReply cfg remote message isEdited s =
      sendWarningMessage cfg remote ?chatId isEdited (snd ?d)"
    using assms by (rule deleteCrossChannelReply_printable)
  have task: "printable ?mid \<longrightarrow>
      fst (run_task cfg later (ScheduleMessageDeletion ?chatId ?mid ?delay) w) = Inr () \<and>
      trace (snd (run_task cfg later (ScheduleMessageDeletion ?chatId ?mid ?delay) w)) =
        trace w @ [Sleep ?delay] @ retry_schedule ''deleteMessage'' ?wp 0 j"
    using assms(4) j(2) by (simp add: scheduleMessageDeletion_printable sleep_def)
  show ?thesis
    apply (rule exI [of _ n], rule exI [of _ k], rule exI [of _ j], rule exI [of _ "fst ?w"])
    using n k j(1) task assms(4) by (simp add: del sendWarningMessage_printable)
qed

theorem moderation_sequence_witness:
  "fst (deleteCrossChannelReply CONFIG flaky_send (reply_to_channel 6) False (initial_world 0)) = Inr () \<and>
   trace (snd (deleteCrossChannelReply CONFIG flaky_send (reply_to_channel 6) False (initial_world 0))) =
     [Fetch ''deleteMessage'' (JObj [(''chat_id'', JNum (- 1001)), (''message_id'', JNum 7)]) 0,
      Fetch ''sendMessage'' (JObj [(''chat_id'', JNum (- 1001)), (''text'', JStr (WARNING_MESSAGE_TEXT CONFIG)),
                                   (''parse_mode'', JStr ''HTML'')]) 0,
      Sleep 1000,
      Fetch ''sendMessage'' (JObj [(''chat_id'', JNum (- 1001)), (''text'', JStr (WARNING_MESSAGE_TEXT CONFIG)),
                                   (''parse_mode'', JStr ''HTML'')]) 1,
      WaitUntil (ScheduleMessageDeletion (JNum (- 1001)) (JNum 42) 10000)] \<and>
   run_task CONFIG (always 5 (ok_response (JBool True)))
       (ScheduleMessageDeletion (JNum (- 1001)) (JNum 42) 10000) (initial_world 0) =
     (Inr (),
      \<lparr>now = 10005, fetches = 1,
        trace = [Sleep 10000,
                 Fetch ''deleteMessage'' (JObj [(''chat_id'', JNum (- 1001)), (''message_id'', JNum 42)]) 0],
        chatInfoCache = Map.empty, rateLimitTracker = Map.empty\<rparr>) \<and>
   trace (snd (deleteCrossChannelReply CONFIG (always 0 (ok_response (JObj [(''message_id'', unprintable)])))
                 (reply_to_channel 6) False (initial_world 0))) =
     [Fetch ''deleteMessage'' (JObj [(''chat_id'', JNum (- 1001)), (''message_id'', JNum 7)]) 0,
      Fetch ''sendMessage'' (JObj [(''chat_id'', JNum (- 1001)), (''text'', JStr (WARNING_MESSAGE_TEXT CONFIG)),
                                   (''parse_mode'', JStr ''HTML'')]) 0]"
  using moderation_sequence [where cfg = CONFIG and remote = flaky_send and message = "reply_to_channel 6"
      and isEdited = False and s = "initial_world 0" and later = "always 5 (ok_response (JBool True))"
      and w = "initial_world 0"]
    moderation_sequence [where cfg = CONFIG and remote = "always 0 (ok_response (JObj [(''message_id'', unprintable)]))"
      and message = "reply_to_channel 6"
      and isEdited = False and s = "initial_world 0" and later = "always 5 (ok_response (JBool True))"
      and w = "initial_world 0"]
  by (simp add: deleteCrossChannelReply_def deleteCrossChannelReply_try_def sendWarningMessage_def
        sendWarningMessage_try_def scheduleMessageDeletion_def deleteWarningMessage_def
        makeApiRequest.simps do_fetch_def sleep_def always_def
        flaky_send_def initial_world_def reply_to_channel_def group_chat_def error_response_def ok_response_def
        isRetryableError_def js_and_def Let_def unprintable_def)
     (simp add: CONFIG_def)

subsection \<open>Message handling\<close>

text \<open>
  \<open>handleMessage\<close> calls the moderation action only for a message that the classifier
  has returned as cross-channel (and external). Such a message has a chat, and its
  \<open>message_id\<close> and chat id can be converted to strings: the lookup has converted the chat
  id, and the log line of the case has converted the \<open>message_id\<close>.
\<close>

lemma detect_cases_logged:
  "detect_cases m i = Inr r \<Longrightarrow> isCrossChannel r \<Longrightarrow> printable (jsprop m ''message_id'')"
  by (auto simp: detect_cases_def channel_result_def no_result_def Let_def split: if_splits sum.splits)

lemma moderated_message_logged:
  assumes "detectCrossChannelReply cfg remote message s = (Inr r, s')" and "isCrossChannel r"
  shows "\<not> nullish message \<and> \<not> nullish (jsprop message ''chat'') \<and>
         printable (jsprop message ''message_id'') \<and> printable (jsprop (jsprop message ''chat'') ''id'')"
proof -
  from detectCrossChannelReply_returned [OF assms(1)]
  obtain info where ok: "\<not> nullish message" "\<not> nullish (jsprop message ''chat'')"
    and g: "getChatInfo cfg remote (jsprop (jsprop message ''chat'') ''id'') s = (Inr info, s')"
    and r: "detect_cases message info = Inr r"
    by auto
  from g have "printable (jsprop (jsprop message ''chat'') ''id'')"
    by (intro getChatInfo_returned [of cfg remote _ s info]) simp
  with ok detect_cases_logged [OF r assms(2)] show ?thesis by simp
qed

subsection \<open>Webhook intake\<close>

lemma typeof_object_truthy: "typeof v = ''object'' \<Longrightarrow> truthy v = (v \<noteq> JNull)"
  by (cases v) simp_all

lemma includes_json_nonempty: "str_includes c ''application/json'' \<Longrightarrow> c \<noteq> []"
  by (cases c) simp_all

lemma processUpdate_returns:
  assumes "\<not> nullish u" and "printable (jsprop u ''update_id'')"
  shows "fst (processUpdate cfg remote u s) = Inr ()"
proof (cases "processUpdate_try cfg remote u s")
  case (Pair x s1)
  with assms show ?thesis
    by (cases x) (simp_all add: processUpdate_def)
qed

lemma object_not_nullish: "typeof u = ''object'' \<Longrightarrow> u \<noteq> JNull \<Longrightarrow> \<not> nullish u"
  by (cases u) simp_all

lemma handleWebhook_rejected:
  "webhook_rejected request \<Longrightarrow>
     status (fst (handleWebhook cfg remote request s)) = 400 \<and> snd (handleWebhook cfg remote request s) = s"
  by (auto simp: handleWebhook_def webhook_rejected_def typeof_object_truthy
        dest: includes_json_nonempty split: option.splits)

lemma handleWebhook_accepted:
  assumes "\<not> webhook_rejected request" and "json_body request = Some u" and "printable (jsprop u ''update_id'')"
  shows "fst (handleWebhook cfg remote request s) = \<lparr>status = 200, body = Text ''OK'', headers = []\<rparr>"
proof -
  from assms obtain c where c: "content_type request = Some c" "str_includes c ''application/json''"
    and u: "typeof u = ''object''" "u \<noteq> JNull" "truthy (jsprop u ''update_id'')"
    by (auto simp: webhook_rejected_def split: option.splits)
  from u assms(3) have "fst (processUpdate cfg remote u s) = Inr ()"
    by (intro processUpdate_returns object_not_nullish)
  then obtain s1 where "processUpdate cfg remote u s = (Inr (), s1)"
    by (cases "processUpdate cfg remote u s") simp
  with c u assms(2,3) includes_json_nonempty [OF c(2)] show ?thesis
    by (simp add: handleWebhook_def typeof_object_truthy)
qed

text \<open>
  C6 (as amended). \<open>handleWebhook\<close> answers a rejected request with 400 and leaves the
  world as it was (nothing is processed, no call is made); it answers every other request
  whose \<open>update_id\<close> can be converted to a string with 200 "OK", whatever happens while the
  update is processed. A missing Content-Type, one without \<open>application/json\<close>, an
  unparsable body and an update without \<open>update_id\<close> are all rejected.
\<close>

theorem webhook_responses:
  "(webhook_rejected request \<longrightarrow>
      status (fst (handleWebhook cfg remote request s)) = 400 \<and>
      snd (handleWebhook cfg remote request s) = s) \<and>
   (\<not> webhook_rejected request \<and> json_body request = Some update \<and> printable (jsprop update ''update_id'') \<longrightarrow>
      fst (handleWebhook cfg remote request s) = \<lparr>status = 200, body = Text ''OK'', headers = []\<rparr>) \<and>
   (content_type request = None \<or>
    (\<exists>contentType. content_type request = Some contentType \<and> \<not> str_includes contentType ''application/json'') \<or>
    json_body request = None \<or>
    (\<exists>parsed. json_body request = Some parsed \<and> jsprop parsed ''update_id'' = JUndef)
      \<longrightarrow> webhook_rejected request)"
  using handleWebhook_rejected [of request cfg remote s]
    handleWebhook_accepted [of request update cfg remote s]
  by (auto simp: webhook_rejected_def split: option.splits)

lemmas webhook_eval =
  handleWebhook_def webhook_request_def update_with_def
  processUpdate_def processUpdate_try_def handleMessage_def handleMessage_try_def handlePrivateMessage_def
  handlePrivateMessage_try_def initial_world_def js_and_def Let_def

text \<open>
  Requests that are answered 200 although the processing fails: a private message whose
  text is a number (the handler raises, and its \<open>catch\<close> block logs); a message of a group
  whose \<open>message_id\<close> cannot be converted to a string (\<open>handleMessage\<close> raises into
  \<open>processUpdate\<close>, whose \<open>catch\<close> block logs), also when the update carries an edited
  message as well, which is then not handled. And a request that is rejected.
\<close>

theorem webhook_responses_witness:
  "\<not> webhook_rejected (webhook_request ''application/json; charset=utf-8''
        (Some (update_with (JNum 1) (private_message (JNum 5))))) \<and>
   fst (handlePrivateMessage_try CONFIG (always 0 FetchRejected) (private_message (JNum 5)) (initial_world 0))
     = Inl TypeError \<and>
   fst (handleWebhook CONFIG (always 0 FetchRejected)
          (webhook_request ''application/json; charset=utf-8''
             (Some (update_with (JNum 1) (private_message (JNum 5))))) (initial_world 0))
     = \<lparr>status = 200, body = Text ''OK'', headers = []\<rparr> \<and>
   fst (handleMessage CONFIG (always 0 FetchRejected)
          (JObj [(''message_id'', unprintable), (''chat'', group_chat)]) False (initial_world 0))
     = Inl TypeError \<and>
   fst (handleWebhook CONFIG (always 0 FetchRejected)
          (webhook_request ''application/json''
             (Some (update_with (JNum 1) (JObj [(''message_id'', unprintable), (''chat'', group_chat)]))))
          (initial_world 0))
     = \<lparr>status = 200, body = Text ''OK'', headers = []\<rparr> \<and>
   handleWebhook CONFIG (always 0 FetchRejected)
          (webhook_request ''application/json''
             (Some (JObj [(''update_id'', JNum 1),
                          (''message'', JObj [(''message_id'', unprintable), (''chat'', group_chat)]),
                          (''edited_message'', private_message (JStr ''hello''))])))
          (initial_world 0)
     = (\<lparr>status = 200, body = Text ''OK'', headers = []\<rparr>, initial_world 0) \<and>
   webhook_rejected (webhook_request ''text/plain'' (Some (update_with (JNum 1) (private_message (JNum 5))))) \<and>
   handleWebhook CONFIG (always 0 FetchRejected)
          (webhook_request ''text/plain'' (Some (update_with (JNum 1) (private_message (JNum 5))))) (initial_world 0)
     = (\<lparr>status = 400, body = Text ''Invalid Content-Type'', headers = []\<rparr>, initial_world 0)"
  using webhook_responses [where cfg = CONFIG and remote = "always 0 FetchRejected" and s = "initial_world 0"
      and request = "webhook_request ''application/json; charset=utf-8''
             (Some (update_with (JNum 1) (private_message (JNum 5))))"
      and update = "update_with (JNum 1) (private_message (JNum 5))"]
    webhook_responses [where cfg = CONFIG and remote = "always 0 FetchRejected" and s = "initial_world 0"
      and request = "webhook_request ''application/json''
             (Some (update_with (JNum 1) (JObj [(''message_id'', unprintable), (''chat'', group_chat)])))"
      and update = "update_with (JNum 1) (JObj [(''message_id'', unprintable), (''chat'', group_chat)])"]
    webhook_responses [where cfg = CONFIG and remote = "always 0 FetchRejected" and s = "initial_world 0"
      and request = "webhook_request ''application/json''
             (Some (JObj [(''update_id'', JNum 1),
                          (''message'', JObj [(''message_id'', unprintable), (''chat'', group_chat)]),
                          (''edited_message'', private_message (JStr ''hello''))]))"
      and update = "JObj [(''update_id'', JNum 1),
                          (''message'', JObj [(''message_id'', unprintable), (''chat'', group_chat)]),
                          (''edited_message'', private_message (JStr ''hello''))]"]
    webhook_responses [where cfg = CONFIG and remote = "always 0 FetchRejected" and s = "initial_world 0"
      and request = "webhook_request ''text/plain'' (Some (update_with (JNum 1) (private_message (JNum 5))))"
      and update = "update_with (JNum 1) (private_message (JNum 5))"]
  by (simp add: webhook_eval webhook_rejected_def private_message_def startsWith_def unprintable_def group_chat_def)

text \<open>
  The claim as stated fails in two ways. An update that has an update id is rejected all
  the same when the id is 0. And an update that passes every check is answered 500, and
  is not processed, when its \<open>update_id\<close> is an object with a member named \<open>toString\<close>: the
  log line before the processing raises inside the outer \<open>try\<close> block.
\<close>

theorem webhook_update_id_counterexample:
  "content_type (webhook_request ''application/json'' (Some (update_with (JNum 0) (private_message (JStr ''/start'')))))
     = Some ''application/json'' \<and>
   str_includes ''application/json'' ''application/json'' \<and>
   json_body (webhook_request ''application/json'' (Some (update_with (JNum 0) (private_message (JStr ''/start'')))))
     = Some (update_with (JNum 0) (private_message (JStr ''/start''))) \<and>
   jsprop (update_with (JNum 0) (private_message (JStr ''/start''))) ''update_id'' = JNum 0 \<and>
   status (fst (handleWebhook CONFIG (always 0 (ok_response (JBool True)))
                  (webhook_request ''application/json'' (Some (update_with (JNum 0) (private_message (JStr ''/start'')))))
                  (initial_world 0))) = 400 \<and>
   \<not> webhook_rejected
       (webhook_request ''application/json'' (Some (update_with unprintable (private_message (JStr ''/start''))))) \<and>
   handleWebhook CONFIG (always 0 (ok_response (JBool True)))
       (webhook_request ''application/json'' (Some (update_with unprintable (private_message (JStr ''/start'')))))
       (initial_world 0)
     = (\<lparr>status = 500, body = Text ''Internal Server Error'', headers = []\<rparr>, initial_world 0)"
  by (simp add: webhook_eval webhook_rejected_def private_message_def startsWith_def unprintable_def)

text \<open>
  C10. An update whose \<open>update_id\<close> is present and falsy is answered with 400 and is not
  processed: the world is unchanged. With a JSON Content-Type the response is "Invalid
  update format".
\<close>

theorem falsy_update_id_rejected:
  assumes "json_body request = Some update"
    and "jsprop update ''update_id'' \<noteq> JUndef" and "\<not> truthy (jsprop update ''update_id'')"
  shows "status (fst (handleWebhook cfg remote request s)) = 400 \<and>
         snd (handleWebhook cfg remote request s) = s \<and>
         ((\<exists>contentType. content_type request = Some contentType \<and> str_includes contentType ''application/json'') \<longrightarrow>
            fst (handleWebhook cfg remote request s) =
              \<lparr>status = 400, body = Text ''Invalid update format'', headers = []\<rparr>)"
  using assms
  by (auto simp: handleWebhook_def dest: includes_json_nonempty split: option.splits)

theorem falsy_update_id_rejected_witness:
  "jsprop (update_with (JNum 0) (reply_to_channel 6)) ''update_id'' = JNum 0 \<and>
   handleWebhook CONFIG (always 0 (ok_response (JBool True)))
     (webhook_request ''application/json'' (Some (update_with (JNum 0) (reply_to_channel 6)))) (initial_world 0)
   = (\<lparr>status = 400, body = Text ''Invalid update format'', headers = []\<rparr>, initial_world 0)"
  using falsy_update_id_rejected [where cfg = CONFIG and remote = "always 0 (ok_response (JBool True))"
      and s = "initial_world 0" and update = "update_with (JNum 0) (reply_to_channel 6)"
      and request = "webhook_request ''application/json'' (Some (update_with (JNum 0) (reply_to_channel 6)))"]
  by (simp add: webhook_eval startsWith_def prod_eq_iff)

subsection \<open>Router\<close>

text \<open>
  C9. A request that passes the rate limiter and is none of \<open>GET /health\<close>,
  \<open>POST /webhook\<close>, \<open>GET /setup\<close> is answered 404 "Not Found"; the world changes only as
  the rate limiter changes it, and no fetch is made.
\<close>

theorem unknown_route_not_found:
  assumes "allowed (fst (checkRateLimit cfg request s))"
    and "\<not> (pathname request = ''/health'' \<and> req_method request = ''GET'')"
    and "\<not> (pathname request = ''/webhook'' \<and> req_method request = ''POST'')"
    and "\<not> (pathname request = ''/setup'' \<and> req_method request = ''GET'')"
  shows "fst (handleRequest cfg remote request s) = \<lparr>status = 404, body = Text ''Not Found'', headers = []\<rparr> \<and>
         snd (handleRequest cfg remote request s) = snd (checkRateLimit cfg request s) \<and>
         trace (snd (handleRequest cfg remote request s)) = trace s \<and>
         fetches (snd (handleRequest cfg remote request s)) = fetches s"
proof -
  have "trace (snd (checkRateLimit cfg request s)) = trace s \<and> fetches (snd (checkRateLimit cfg request s)) = fetches s"
    by (simp add: checkRateLimit_def Let_def)
  with assms show ?thesis
    by (auto simp: handleRequest_def case_prod_beta)
qed

theorem unknown_route_not_found_witness:
  "allowed (fst (checkRateLimit CONFIG
      ((webhook_request ''application/json'' None)\<lparr>req_method := ''GET'', pathname := ''/webhook''\<rparr>) (initial_world 0))) \<and>
   fst (handleRequest CONFIG (always 0 (ok_response (JBool True)))
      ((webhook_request ''application/json'' None)\<lparr>req_method := ''GET'', pathname := ''/webhook''\<rparr>) (initial_world 0))
     = \<lparr>status = 404, body = Text ''Not Found'', headers = []\<rparr> \<and>
   trace (snd (handleRequest CONFIG (always 0 (ok_response (JBool True)))
      ((webhook_request ''application/json'' None)\<lparr>req_method := ''GET'', pathname := ''/webhook''\<rparr>) (initial_world 0))) = []"
  using unknown_route_not_found [where cfg = CONFIG and remote = "always 0 (ok_response (JBool True))"
      and s = "initial_world 0"
      and request = "(webhook_request ''application/json'' None)\<lparr>req_method := ''GET'', pathname := ''/webhook''\<rparr>"]
  by (simp add: checkRateLimit_def getClientIP_def webhook_request_def initial_world_def CONFIG_def Let_def)


subsection \<open>Rate limiter\<close>

lemma getChatInfo_tracker:
  "rateLimitTracker (snd (getChatInfo cfg remote c s)) = rateLimitTracker s"
  by (cases "js_to_string c")
     (simp_all add: getChatInfo_def Let_def case_prod_beta makeApiRequest_frame split: option.splits)

lemma detectCrossChannelReply_tracker:
  "rateLimitTracker (snd (detectCrossChannelReply cfg remote m s)) = rateLimitTracker s"
proof (cases "getChatInfo cfg remote (jsprop (jsprop m ''chat'') ''id'') s")
  case (Pair x s1)
  with getChatInfo_tracker [of cfg remote "jsprop (jsprop m ''chat'') ''id''" s]
  show ?thesis
    by (cases x) (simp_all add: detectCrossChannelReply_def)
qed

lemma sendWarningMessage_try_tracker:
  "rateLimitTracker (snd (sendWarningMessage_try cfg remote c e s)) = rateLimitTracker s"
  by (simp add: sendWarningMessage_try_def Let_def case_prod_beta makeApiRequest_frame)

lemma sendWarningMessage_tracker:
  "rateLimitTracker (snd (sendWarningMessage cfg remote c e s)) = rateLimitTracker s"
proof (cases "sendWarningMessage_try cfg remote c e s")
  case (Pair x s1)
  with sendWarningMessage_try_tracker [of cfg remote c e s]
  show ?thesis
    by (cases x) (simp_all add: sendWarningMessage_def)
qed

lemma deleteCrossChannelReply_try_tracker:
  "rateLimitTracker (snd (deleteCrossChannelReply_try cfg remote c i e s)) = rateLimitTracker s"
  by (simp add: deleteCrossChannelReply_try_def case_prod_beta sendWarningMessage_tracker makeApiRequest_frame)

lemma deleteCrossChannelReply_tracker:
  "rateLimitTracker (snd (deleteCrossChannelReply cfg remote m e s)) = rateLimitTracker s"
proof (cases "deleteCrossChannelReply_try cfg remote (jsprop (jsprop m ''chat'') ''id'') (jsprop m ''message_id'') e s")
  case (Pair x s1)
  with deleteCrossChannelReply_try_tracker [of cfg remote "jsprop (jsprop m ''chat'') ''id''" "jsprop m ''message_id''" e s]
  show ?thesis
    by (cases x) (simp_all add: deleteCrossChannelReply_def Let_def)
qed

lemma handlePrivateMessage_try_tracker:
  "rateLimitTracker (snd (handlePrivateMessage_try cfg remote m s)) = rateLimitTracker s"
  by (simp add: handlePrivateMessage_try_def Let_def makeApiRequest_frame split: jsval.splits)

lemma handlePrivateMessage_tracker:
  "rateLimitTracker (snd (handlePrivateMessage cfg remote m s)) = rateLimitTracker s"
proof (cases "handlePrivateMessage_try cfg remote m s")
  case (Pair x s1)
  with handlePrivateMessage_try_tracker [of cfg remote m s]
  show ?thesis
    by (cases x) (simp_all add: handlePrivateMessage_def)
qed

lemma handleMessage_try_tracker:
  "rateLimitTracker (snd (handleMessage_try cfg remote m e s)) = rateLimitTracker s"
proof (cases "detectCrossChannelReply cfg remote m s")
  case (Pair x s1)
  with detectCrossChannelReply_tracker [of cfg remote m s]
  have s1: "rateLimitTracker s1 = rateLimitTracker s" by simp
  show ?thesis
  proof (cases x)
    case (Inl err)
    with Pair s1 show ?thesis
      by (simp add: handleMessage_try_def Let_def handlePrivateMessage_tracker)
  next
    case (Inr r)
    with Pair s1 show ?thesis
      by (simp add: handleMessage_try_def Let_def handlePrivateMessage_tracker deleteCrossChannelReply_tracker)
  qed
qed

lemma handleMessage_tracker:
  "rateLimitTracker (snd (handleMessage cfg remote m e s)) = rateLimitTracker s"
proof (cases "handleMessage_try cfg remote m e s")
  case (Pair x s1)
  with handleMessage_try_tracker [of cfg remote m e s]
  show ?thesis
    by (cases x) (simp_all add: handleMessage_def)
qed

lemma processUpdate_try_tracker:
  "rateLimitTracker (snd (processUpdate_try cfg remote u s)) = rateLimitTracker s"
proof (cases "handleMessage cfg remote (jsprop u ''message'') False s")
  case (Pair x s1)
  with handleMessage_tracker [of cfg remote "jsprop u ''message''" False s]
  have s1: "rateLimitTracker s1 = rateLimitTracker s" by simp
  show ?thesis
  proof (cases x)
    case (Inl err)
    with Pair s1 show ?thesis
      by (simp add: processUpdate_try_def handleMessage_tracker)
  next
    case (Inr r)
    with Pair s1 show ?thesis
      by (simp add: processUpdate_try_def handleMessage_tracker)
  qed
qed

lemma processUpdate_tracker:
  "rateLimitTracker (snd (processUpdate cfg remote u s)) = rateLimitTracker s"
proof (cases "processUpdate_try cfg remote u s")
  case (Pair x s1)
  with processUpdate_try_tracker [of cfg remote u s]
  show ?thesis
    by (cases x) (simp_all add: processUpdate_def)
qed

lemma handleWebhook_tracker:
  "rateLimitTracker (snd (handleWebhook cfg remote r s)) = rateLimitTracker s"
proof (cases "content_type r")
  case None
  then show ?thesis by (simp add: handleWebhook_def)
next
  case (Some c)
  show ?thesis
  proof (cases "json_body r")
    case None
    with Some show ?thesis by (simp add: handleWebhook_def)
  next
    case u: (Some u)
    obtain x s1 where p: "processUpdate cfg remote u s = (x, s1)"
      by (cases "processUpdate cfg remote u s")
    with processUpdate_tracker [of cfg remote u s]
    have "rateLimitTracker s1 = rateLimitTracker s" by simp
    with Some u p show ?thesis
      by (cases x) (simp_all add: handleWebhook_def)
  qed
qed

lemma handleWebhook_status: "status (fst (handleWebhook cfg remote r s)) \<in> {200, 400, 500}"
proof (cases "content_type r")
  case None
  then show ?thesis by (simp add: handleWebhook_def)
next
  case (Some c)
  show ?thesis
  proof (cases "json_body r")
    case None
    with Some show ?thesis by (simp add: handleWebhook_def)
  next
    case u: (Some u)
    obtain x s1 where p: "processUpdate cfg remote u s = (x, s1)"
      by (cases "processUpdate cfg remote u s")
    with Some u show ?thesis
      by (cases x) (simp_all add: handleWebhook_def)
  qed
qed

lemma setupWebhook_tracker:
  "rateLimitTracker (snd (setupWebhook cfg remote r s)) = rateLimitTracker s"
  by (simp add: setupWebhook_def Let_def case_prod_beta makeApiRequest_frame)

lemma handleRequest_tracker:
  "rateLimitTracker (snd (handleRequest cfg remote r s)) = rateLimitTracker (snd (checkRateLimit cfg r s))"
  by (simp add: handleRequest_def case_prod_beta handleWebhook_tracker setupWebhook_tracker)

lemma setupWebhook_status: "status (fst (setupWebhook cfg remote r s)) \<in> {200, 500}"
  by (simp add: setupWebhook_def Let_def case_prod_beta)

lemma handleRequest_limited:
  "\<not> allowed (fst (checkRateLimit cfg r s)) \<Longrightarrow>
     fst (handleRequest cfg remote r s) =
       \<lparr>status = 429, body = Text ''Rate limit exceeded'', headers = [(''Retry-After'', ''60'')]\<rparr>"
  by (simp add: handleRequest_def case_prod_beta)

lemma handleRequest_admitted:
  "allowed (fst (checkRateLimit cfg r s)) \<Longrightarrow> status (fst (handleRequest cfg remote r s)) \<noteq> 429"
  using handleWebhook_status [of cfg remote r "snd (checkRateLimit cfg r s)"]
    setupWebhook_status [of cfg remote r "snd (checkRateLimit cfg r s)"]
  by (auto simp: handleRequest_def case_prod_beta)

lemma checkRateLimit_allowed:
  "allowed (fst (checkRateLimit cfg r s)) =
     (length (filter (\<lambda>ts. ts > now s - RATE_LIMIT_WINDOW cfg) (counted s (getClientIP r)))
        < MAX_REQUESTS_PER_WINDOW cfg)"
  by (auto simp: checkRateLimit_def counted_def Let_def split: option.splits)

lemma checkRateLimit_counted:
  "counted (snd (checkRateLimit cfg r s)) ip =
     (if ip = getClientIP r \<and> allowed (fst (checkRateLimit cfg r s))
      then filter (\<lambda>ts. ts > now s - RATE_LIMIT_WINDOW cfg) (counted s ip) @ [now s]
      else filter (\<lambda>ts. ts > now s - RATE_LIMIT_WINDOW cfg) (counted s ip))"
  by (auto simp: checkRateLimit_def counted_def Let_def split: option.splits)

lemma counted_now [simp]: "counted (s\<lparr>now := t\<rparr>) ip = counted s ip"
  by (simp add: counted_def)

lemma handleRequest_counted:
  "counted (snd (handleRequest cfg remote r s)) ip = counted (snd (checkRateLimit cfg r s)) ip"
  by (simp add: counted_def handleRequest_tracker)

lemma handleRequest_status_429:
  "(status (fst (handleRequest cfg remote r s)) = 429) = (\<not> allowed (fst (checkRateLimit cfg r s)))"
  using handleRequest_limited [of cfg r s remote] handleRequest_admitted [of cfg r s remote]
  by auto

lemma filter_all_recent:
  "\<forall>x \<in> set xs. (t0::int) \<le> x \<Longrightarrow> t < t0 + w \<Longrightarrow> filter (\<lambda>ts. ts > t - w) xs = xs"
  by (induction xs) auto

lemma serve_Cons:
  "serve cfg remote ((t, r) # rest) s =
     (fst (handleRequest cfg remote r (s\<lparr>now := t\<rparr>)) #
        fst (serve cfg remote rest (snd (handleRequest cfg remote r (s\<lparr>now := t\<rparr>)))),
      snd (serve cfg remote rest (snd (handleRequest cfg remote r (s\<lparr>now := t\<rparr>)))))"
  by (simp add: case_prod_beta)

lemma responses_to_Cons:
  "responses_to a ((t, r) # rest) (x # xs) =
     (if getClientIP r = a then x # responses_to a rest xs else responses_to a rest xs)"
  by (simp add: responses_to_def)

lemma serve_window:
  assumes "\<forall>x \<in> set (counted s a). t0 \<le> x"
    and "\<forall>(t, r) \<in> set reqs. t0 \<le> t \<and> t < t0 + RATE_LIMIT_WINDOW cfg"
  shows "map (\<lambda>response. status response = 429) (responses_to a reqs (fst (serve cfg remote reqs s))) =
           replicate (min (length (filter (\<lambda>(t, r). getClientIP r = a) reqs))
                          (MAX_REQUESTS_PER_WINDOW cfg - length (counted s a))) False @
           replicate (length (filter (\<lambda>(t, r). getClientIP r = a) reqs)
                        - (MAX_REQUESTS_PER_WINDOW cfg - length (counted s a))) True"
  using assms
proof (induction reqs arbitrary: s)
  case Nil
  then show ?case by (simp add: responses_to_def)
next
  case (Cons x rest)
  obtain t r where x: "x = (t, r)" by (cases x)
  let ?N = "MAX_REQUESTS_PER_WINDOW cfg"
  let ?s' = "s\<lparr>now := t\<rparr>"
  let ?s1 = "snd (handleRequest cfg remote r ?s')"
  from Cons.prems(2) x have t: "t0 \<le> t" "t < t0 + RATE_LIMIT_WINDOW cfg"
    and rest: "\<forall>(t, r) \<in> set rest. t0 \<le> t \<and> t < t0 + RATE_LIMIT_WINDOW cfg"
    by auto
  have keep: "filter (\<lambda>ts. ts > t - RATE_LIMIT_WINDOW cfg) (counted s a) = counted s a"
    using Cons.prems(1) t(2) by (rule filter_all_recent)
  have c1: "counted ?s1 a =
      (if a = getClientIP r \<and> length (counted s a) < ?N then counted s a @ [t] else counted s a)"
    using keep by (auto simp: handleRequest_counted checkRateLimit_counted checkRateLimit_allowed)
  then have inv: "\<forall>x \<in> set (counted ?s1 a). t0 \<le> x"
    using Cons.prems(1) t(1) by auto
  note IH = Cons.IH [OF inv rest]
  show ?case
  proof (cases "getClientIP r = a")
    case False
    with c1 have "counted ?s1 a = counted s a" by auto
    with IH False show ?thesis
      by (simp add: x serve_Cons responses_to_Cons del: serve.simps)
  next
    case True
    have st: "(status (fst (handleRequest cfg remote r ?s')) = 429) = (\<not> length (counted s a) < ?N)"
      using True keep by (auto simp: handleRequest_status_429 checkRateLimit_allowed)
    show ?thesis
    proof (cases "length (counted s a) < ?N")
      case False
      with c1 have "counted ?s1 a = counted s a" by auto
      with IH True False st show ?thesis
        by (simp add: x serve_Cons responses_to_Cons replicate_app_Cons_same del: serve.simps)
    next
      case less: True
      then obtain j where j: "?N - length (counted s a) = Suc j"
        by (cases "?N - length (counted s a)") auto
      from less c1 True have "counted ?s1 a = counted s a @ [t]" by auto
      then have "?N - length (counted ?s1 a) = j" using j by simp
      with IH True less st j show ?thesis
        by (simp add: x serve_Cons responses_to_Cons del: serve.simps)
    qed
  qed
qed

lemma serve_limited_responses:
  "\<forall>response \<in> set (fst (serve cfg remote reqs s)).
      status response = 429 \<longrightarrow> map_of (headers response) ''Retry-After'' = Some ''60''"
proof (induction reqs arbitrary: s)
  case Nil
  then show ?case by simp
next
  case (Cons x rest)
  obtain t r where x: "x = (t, r)" by (cases x)
  have "status (fst (handleRequest cfg remote r (s\<lparr>now := t\<rparr>))) = 429 \<longrightarrow>
        map_of (headers (fst (handleRequest cfg remote r (s\<lparr>now := t\<rparr>)))) ''Retry-After'' = Some ''60''"
    using handleRequest_limited [of cfg r "s\<lparr>now := t\<rparr>" remote]
    by (auto simp: handleRequest_status_429)
  with Cons.IH [of "snd (handleRequest cfg remote r (s\<lparr>now := t\<rparr>))"] show ?case
    by (simp add: x serve_Cons del: serve.simps)
qed

lemma handleRequest_bounded:
  assumes "tracker_bounded cfg s"
  shows "tracker_bounded cfg (snd (handleRequest cfg remote r s))"
proof -
  have "length (counted (snd (handleRequest cfg remote r s)) ip) \<le> MAX_REQUESTS_PER_WINDOW cfg" for ip
  proof -
    have "length (filter (\<lambda>ts. ts > now s - RATE_LIMIT_WINDOW cfg) (counted s ip)) \<le> length (counted s ip)"
      by simp
    also have "\<dots> \<le> MAX_REQUESTS_PER_WINDOW cfg"
      using assms by (simp add: tracker_bounded_def)
    finally show ?thesis
      by (auto simp: handleRequest_counted checkRateLimit_counted checkRateLimit_allowed)
  qed
  then show ?thesis by (simp add: tracker_bounded_def)
qed

lemma tracker_bounded_now [simp]: "tracker_bounded cfg (s\<lparr>now := t\<rparr>) = tracker_bounded cfg s"
  by (simp add: tracker_bounded_def)

lemma serve_bounded:
  "tracker_bounded cfg s \<Longrightarrow> tracker_bounded cfg (snd (serve cfg remote reqs s))"
proof (induction reqs arbitrary: s)
  case Nil
  then show ?case by simp
next
  case (Cons x rest)
  obtain t r where x: "x = (t, r)" by (cases x)
  from Cons.prems have "tracker_bounded cfg (snd (handleRequest cfg remote r (s\<lparr>now := t\<rparr>)))"
    by (intro handleRequest_bounded) simp
  from Cons.IH [OF this] show ?case
    by (simp add: x serve_Cons del: serve.simps)
qed

lemma initial_world_bounded: "tracker_bounded cfg (initial_world t)"
  by (simp add: tracker_bounded_def counted_def initial_world_def)

lemma expired_admits:
  assumes "tracker_bounded cfg s" and "x \<in> set (counted s (getClientIP r))"
    and "x + RATE_LIMIT_WINDOW cfg \<le> t"
  shows "status (fst (handleRequest cfg remote r (s\<lparr>now := t\<rparr>))) \<noteq> 429"
proof -
  have "\<not> x > t - RATE_LIMIT_WINDOW cfg" using assms(3) by simp
  with assms(2)
  have "length (filter (\<lambda>ts. ts > t - RATE_LIMIT_WINDOW cfg) (counted s (getClientIP r)))
          < length (counted s (getClientIP r))"
    by (intro length_filter_less)
  also have "\<dots> \<le> MAX_REQUESTS_PER_WINDOW cfg"
    using assms(1) by (simp add: tracker_bounded_def)
  finally show ?thesis
    by (simp add: handleRequest_status_429 checkRateLimit_allowed)
qed

text \<open>
  C3. For every window and limit: when nothing is counted for an address and all the
  requests served arrive within one window (from \<open>start\<close> to less than \<open>start\<close> plus the
  window), the first \<open>MAX_REQUESTS_PER_WINDOW\<close> requests of the address are admitted (not
  answered 429) and all its later ones are answered 429; every 429 response carries a
  \<open>Retry-After\<close> header; and in a worker that has served any requests since it started, a
  request of an address for which some counted request (so also the earliest) is at least
  a window old is admitted.
\<close>

theorem rate_limit_window:
  "(rateLimitTracker s a = None \<and> (\<forall>(t, r) \<in> set reqs. start \<le> t \<and> t < start + RATE_LIMIT_WINDOW cfg) \<longrightarrow>
      map (\<lambda>response. status response = 429) (responses_to a reqs (fst (serve cfg remote reqs s))) =
        replicate (min (length (filter (\<lambda>(t, r). getClientIP r = a) reqs)) (MAX_REQUESTS_PER_WINDOW cfg)) False @
        replicate (length (filter (\<lambda>(t, r). getClientIP r = a) reqs) - MAX_REQUESTS_PER_WINDOW cfg) True) \<and>
   (\<forall>response \<in> set (fst (serve cfg remote reqs s)).
      status response = 429 \<longrightarrow> map_of (headers response) ''Retry-After'' = Some ''60'') \<and>
   (x \<in> set (counted (snd (serve cfg remote reqs (initial_world boot))) a) \<and>
    x + RATE_LIMIT_WINDOW cfg \<le> t \<and> getClientIP r = a \<longrightarrow>
      status (fst (handleRequest cfg remote r ((snd (serve cfg remote reqs (initial_world boot)))\<lparr>now := t\<rparr>))) \<noteq> 429)"
proof (intro conjI impI)
  assume a: "rateLimitTracker s a = None \<and> (\<forall>(t, r) \<in> set reqs. start \<le> t \<and> t < start + RATE_LIMIT_WINDOW cfg)"
  then have "counted s a = []" by (simp add: counted_def)
  with serve_window [of s a start reqs cfg remote] a
  show "map (\<lambda>response. status response = 429) (responses_to a reqs (fst (serve cfg remote reqs s))) =
        replicate (min (length (filter (\<lambda>(t, r). getClientIP r = a) reqs)) (MAX_REQUESTS_PER_WINDOW cfg)) False @
        replicate (length (filter (\<lambda>(t, r). getClientIP r = a) reqs) - MAX_REQUESTS_PER_WINDOW cfg) True"
    by simp
next
  show "\<forall>response \<in> set (fst (serve cfg remote reqs s)).
      status response = 429 \<longrightarrow> map_of (headers response) ''Retry-After'' = Some ''60''"
    by (rule serve_limited_responses)
next
  assume b: "x \<in> set (counted (snd (serve cfg remote reqs (initial_world boot))) a) \<and>
    x + RATE_LIMIT_WINDOW cfg \<le> t \<and> getClientIP r = a"
  have "tracker_bounded cfg (snd (serve cfg remote reqs (initial_world boot)))"
    by (intro serve_bounded initial_world_bounded)
  with b show "status (fst (handleRequest cfg remote r ((snd (serve cfg remote reqs (initial_world boot)))\<lparr>now := t\<rparr>))) \<noteq> 429"
    by (intro expired_admits) auto
qed

lemmas limiter_eval =
  handleRequest_def checkRateLimit_def getClientIP_def health_request_def small_limit_def CONFIG_def
  initial_world_def responses_to_def counted_def Let_def

theorem rate_limit_window_witness:
  "map status (fst (serve small_limit (always 0 FetchRejected)
      [(0, health_request ''203.0.113.7''), (10, health_request ''203.0.113.7''),
       (59999, health_request ''203.0.113.7'')] (initial_world 0))) = [200, 200, 429] \<and>
   counted (snd (serve small_limit (always 0 FetchRejected)
      [(0, health_request ''203.0.113.7''), (10, health_request ''203.0.113.7''),
       (59999, health_request ''203.0.113.7'')] (initial_world 0))) ''203.0.113.7'' = [0, 10] \<and>
   status (fst (handleRequest small_limit (always 0 FetchRejected) (health_request ''203.0.113.7'')
      ((snd (serve small_limit (always 0 FetchRejected)
          [(0, health_request ''203.0.113.7''), (10, health_request ''203.0.113.7''),
           (59999, health_request ''203.0.113.7'')] (initial_world 0)))\<lparr>now := 60000\<rparr>))) = 200"
  using rate_limit_window [where cfg = small_limit and remote = "always 0 FetchRejected"
      and s = "initial_world 0" and a = "''203.0.113.7''" and start = 0 and boot = 0 and x = 0 and t = 60000
      and r = "health_request ''203.0.113.7''"
      and reqs = "[(0, health_request ''203.0.113.7''), (10, health_request ''203.0.113.7''),
                   (59999, health_request ''203.0.113.7'')]"]
  by (simp add: limiter_eval)



end
